theory Spec2Isabelle
  imports Main "HOL-Library.Char_ord" "HOL-Library.List_Lexorder" "HOL-Library.Multiset"
begin

section \<open>Text helpers shared by both agents\<close>

text \<open>
  Python strings are modelled as \<^typ>\<open>string\<close>. The guideline excerpts, the patient
  entries and every phrase the code searches for are ASCII text; a character outside
  ASCII appears as its UTF-8 bytes, which are neither whitespace nor upper-case letters
  here.
\<close>

definition is_space :: "char \<Rightarrow> bool" where
  \<comment> \<open>\<open>str.isspace\<close> and the regex class \<open>\s\<close> on ASCII: TAB, LF, VT, FF, CR, FS, GS, RS, US, SPACE.\<close>
  "is_space c = (let n = (of_char c :: nat) in (9 \<le> n \<and> n \<le> 13) \<or> (28 \<le> n \<and> n \<le> 32))"

definition lower_char :: "char \<Rightarrow> char" where
  "lower_char c = (let n = (of_char c :: nat) in if 65 \<le> n \<and> n \<le> 90 then char_of (n + 32) else c)"

definition lower :: "string \<Rightarrow> string" where
  "lower s = map lower_char s"

text \<open>\<open>str.strip\<close> removes the leading and the trailing whitespace.\<close>

definition lstrip :: "string \<Rightarrow> string" where
  "lstrip s = dropWhile is_space s"

definition rstrip :: "string \<Rightarrow> string" where
  "rstrip s = rev (dropWhile is_space (rev s))"

definition strip :: "string \<Rightarrow> string" where
  "strip s = rstrip (lstrip s)"

text \<open>\<open>re.sub(r"\s+", " ", t)\<close>: every maximal run of whitespace becomes one space.\<close>

function re_sub_ws :: "string \<Rightarrow> string" where
  "re_sub_ws [] = []"
| "re_sub_ws (c # cs) =
     (if is_space c then CHR '' '' # re_sub_ws (dropWhile is_space cs) else c # re_sub_ws cs)"
  by pat_completeness auto
termination
  by (relation "measure length") (auto simp: length_dropWhile_le less_Suc_eq_le)

text \<open>\<open>_norm(s) = re.sub(r"\s+", " ", (s or "").strip().lower())\<close>\<close>

definition norm :: "string \<Rightarrow> string" where
  "norm s = re_sub_ws (lower (strip s))"

text \<open>\<open>sub in s\<close> on strings: \<open>sub\<close> occurs in \<open>s\<close> as a contiguous run.\<close>

fun starts_with :: "string \<Rightarrow> string \<Rightarrow> bool" where
  "starts_with [] s = True"
| "starts_with (a # as) [] = False"
| "starts_with (a # as) (c # cs) = (a = c \<and> starts_with as cs)"

fun py_in :: "string \<Rightarrow> string \<Rightarrow> bool" where
  "py_in sub [] = (sub = [])"
| "py_in sub (c # cs) = (starts_with sub (c # cs) \<or> py_in sub cs)"

text \<open>\<open>sep.join(xs)\<close>\<close>

fun join :: "string \<Rightarrow> string list \<Rightarrow> string" where
  "join sep [] = []"
| "join sep [x] = x"
| "join sep (x # y # ys) = x @ sep @ join sep (y # ys)"

text \<open>\<open>str(n)\<close> for an integer.\<close>

fun str_nat :: "nat \<Rightarrow> string" where
  "str_nat n = (if n < 10 then [char_of (48 + n)] else str_nat (n div 10) @ [char_of (48 + n mod 10)])"

definition str_int :: "int \<Rightarrow> string" where
  "str_int i = (if i < 0 then CHR ''-'' # str_nat (nat (- i)) else str_nat (nat i))"

definition NL :: string where
  "NL = [CHR 0x0A]"

definition RSQUO :: string where
  \<comment> \<open>U+2019, the apostrophe of the two canned sentences, as UTF-8.\<close>
  "RSQUO = [CHR 0xE2, CHR 0x80, CHR 0x99]"

section \<open>Decoded JSON values and \<open>str()\<close>\<close>

text \<open>
  What \<open>json.loads\<close> returns: \<open>None\<close>, a bool, a number (integers here), a string, a
  list or a dict (an association list with distinct keys, looked up with \<^const>\<open>map_of\<close>).
\<close>

datatype json = JNull | JBool bool | JInt int | JStr string | JArr "json list" | JObj "(string \<times> json) list"

fun py_truthy :: "json \<Rightarrow> bool" where
  "py_truthy JNull = False"
| "py_truthy (JBool b) = b"
| "py_truthy (JInt i) = (i \<noteq> 0)"
| "py_truthy (JStr s) = (s \<noteq> [])"
| "py_truthy (JArr xs) = (xs \<noteq> [])"
| "py_truthy (JObj kvs) = (kvs \<noteq> [])"

definition hex_digit :: "nat \<Rightarrow> char" where
  "hex_digit n = (if n < 10 then char_of (48 + n) else char_of (87 + n))"

definition SQ :: char where
  "SQ = CHR 0x27"

definition DQ :: char where
  "DQ = CHR 0x22"

definition BSL :: char where
  "BSL = CHR 0x5C"

definition repr_char :: "char \<Rightarrow> char \<Rightarrow> string" where
  "repr_char quote c =
     (let n = (of_char c :: nat) in
      if c = quote \<or> c = BSL then [BSL, c]
      else if n = 9 then [BSL, CHR ''t'']
      else if n = 10 then [BSL, CHR ''n'']
      else if n = 13 then [BSL, CHR ''r'']
      else if n < 32 \<or> n = 127 then [BSL, CHR ''x'', hex_digit (n div 16), hex_digit (n mod 16)]
      else [c])"

definition repr_str :: "string \<Rightarrow> string" where
  "repr_str s =
     (let quote = (if SQ \<in> set s \<and> DQ \<notin> set s then DQ else SQ)
      in [quote] @ concat (map (repr_char quote) s) @ [quote])"

fun py_repr :: "json \<Rightarrow> string"
  and py_repr_list :: "json list \<Rightarrow> string list"
  and py_repr_items :: "(string \<times> json) list \<Rightarrow> string list" where
  "py_repr JNull = ''None''"
| "py_repr (JBool b) = (if b then ''True'' else ''False'')"
| "py_repr (JInt i) = str_int i"
| "py_repr (JStr s) = repr_str s"
| "py_repr (JArr xs) = ''['' @ join '', '' (py_repr_list xs) @ '']''"
| "py_repr (JObj kvs) = ''{'' @ join '', '' (py_repr_items kvs) @ ''}''"
| "py_repr_list [] = []"
| "py_repr_list (x # xs) = py_repr x # py_repr_list xs"
| "py_repr_items [] = []"
| "py_repr_items ((k, v) # kvs) = (repr_str k @ '': '' @ py_repr v) # py_repr_items kvs"

definition py_str :: "json \<Rightarrow> string" where
  "py_str v = (case v of JStr s \<Rightarrow> s | _ \<Rightarrow> py_repr v)"

definition type_name :: "json \<Rightarrow> string" where
  "type_name v = (case v of JNull \<Rightarrow> ''NoneType'' | JBool _ \<Rightarrow> ''bool'' | JInt _ \<Rightarrow> ''int''
                   | JStr _ \<Rightarrow> ''str'' | JArr _ \<Rightarrow> ''list'' | JObj _ \<Rightarrow> ''dict'')"

section \<open>Data model\<close>

text \<open>\<open>app/models.py\<close>: \<open>Citation\<close> and \<open>AssessResponse\<close>.\<close>

record citation =
  source :: string
  page :: int
  chunk_id :: string
  excerpt :: string

record assess_response =
  patient_id :: string
  category :: string
  rationale :: string
  recommended_action :: string
  citations :: "citation list"

text \<open>
  The patient is a \<open>dict[str, Any]\<close> read from the patient file. Each field below is what
  \<open>patient.get(key)\<close> yields: \<open>None\<close> when the key is missing, the stored value for the
  scalar attributes, and for the three lists the free-text entries (\<open>None\<close> also when the
  stored value is null).
\<close>

record patient =
  get_patient_id :: "json option"
  get_age :: "json option"
  get_sex :: "json option"
  get_gender :: "json option"
  get_duration :: "json option"
  get_symptoms :: "string list option"
  get_findings :: "string list option"
  get_investigations :: "string list option"

definition or_empty :: "'a list option \<Rightarrow> 'a list" where
  \<comment> \<open>\<open>patient.get(key) or []\<close> (and \<open>or ""\<close>)\<close>
  "or_empty v = (case v of None \<Rightarrow> [] | Some xs \<Rightarrow> xs)"

section \<open>Evidence gate (\<open>chat_agent.py\<close>)\<close>

definition gated_terms :: "string list" where
  "gated_terms = [''splenomegaly'', ''lymphadenopathy'', ''night sweats'', ''fever'', ''pruritus'']"

definition patient_terms :: "patient \<Rightarrow> string" where
  "patient_terms p =
     join '' '' (map norm (or_empty (get_symptoms p) @ or_empty (get_findings p)
                            @ or_empty (get_investigations p)))"

text \<open>The \<open>for term in gated_terms\<close> loop, returning \<open>False\<close> at the first violating term.\<close>

fun gate_loop :: "string list \<Rightarrow> string \<Rightarrow> string \<Rightarrow> bool" where
  "gate_loop [] text pterms = True"
| "gate_loop (term # terms) text pterms =
     (if py_in term text \<and> \<not> py_in term pterms then False else gate_loop terms text pterms)"

definition citation_supported_by_patient :: "citation \<Rightarrow> patient \<Rightarrow> bool" where
  "citation_supported_by_patient c p = gate_loop gated_terms (norm (excerpt c)) (patient_terms p)"

section \<open>Exceptions and dictionary access\<close>

text \<open>An exception: \<open>type(e).__name__\<close> and \<open>str(e)\<close>.\<close>

datatype error = Error (err_type: string) (err_msg: string)

definition no_get_attribute :: "json \<Rightarrow> error" where
  \<comment> \<open>\<open>obj.get(...)\<close> on a value that is not a dict\<close>
  "no_get_attribute v =
     Error ''AttributeError'' ([SQ] @ type_name v @ [SQ] @ '' object has no attribute '' @ [SQ] @ ''get'' @ [SQ])"

definition dict_get_or :: "(string \<times> json) list \<Rightarrow> string \<Rightarrow> json \<Rightarrow> json" where
  \<comment> \<open>\<open>obj.get(key, default)\<close>\<close>
  "dict_get_or kvs k d = (case map_of kvs k of None \<Rightarrow> d | Some v \<Rightarrow> v)"

definition dict_get_or_empty :: "(string \<times> json) list \<Rightarrow> string \<Rightarrow> json" where
  \<comment> \<open>\<open>obj.get(key) or ""\<close>\<close>
  "dict_get_or_empty kvs k =
     (case map_of kvs k of None \<Rightarrow> JStr [] | Some v \<Rightarrow> if py_truthy v then v else JStr [])"

section \<open>Response extractor (\<open>_extract_json\<close>, the same in both agents)\<close>

text \<open>
  \<open>re.search(r"\{.*\}", text, flags=re.DOTALL)\<close>: the leftmost match starts at the first
  opening brace that has a closing brace after it, and the greedy \<open>.*\<close> runs to the last
  closing brace of the text.
\<close>

definition re_search_braces :: "string \<Rightarrow> string option" where
  "re_search_braces t =
     (let r = dropWhile (\<lambda>c. c \<noteq> CHR ''{'') t
      in if CHR ''}'' \<in> set r then Some (rev (dropWhile (\<lambda>c. c \<noteq> CHR ''}'') (rev r))) else None)"

text \<open>
  \<open>json.loads\<close> is the standard library's; it is a parameter here, \<open>None\<close> when it raises.
\<close>

definition extract_json :: "(string \<Rightarrow> json option) \<Rightarrow> string \<Rightarrow> json" where
  "extract_json loads text0 =
     (let text = strip text0 in
      case loads text of
        Some v \<Rightarrow> v
      | None \<Rightarrow>
          (case re_search_braces text of
             Some m \<Rightarrow> (case loads m of Some v \<Rightarrow> v | None \<Rightarrow> JObj [])
           | None \<Rightarrow> JObj []))"

section \<open>Category normalizer (\<open>_map_category\<close>)\<close>

definition map_category :: "string \<Rightarrow> string" where
  "map_category cat =
     (let c = norm cat in
      if c \<in> set [''urgent_referral'', ''urgent referral''] then ''urgent_referral''
      else if c \<in> set [''urgent_investigation'', ''urgent investigation''] then ''urgent_investigation''
      else if c \<in> set [''no_urgent_action'', ''no urgent action'', ''routine''] then ''no_urgent_action''
      else if c \<in> set [''insufficient_evidence'', ''insufficient evidence'', ''uncertain'']
        then ''insufficient_evidence''
      else ''urgent_investigation'')"

section \<open>Assess flow (\<open>risk_assessor.py\<close>)\<close>

definition get_or_blank :: "json option \<Rightarrow> string" where
  \<comment> \<open>\<open>patient.get(key, "")\<close> inside an f-string\<close>
  "get_or_blank v = (case v of None \<Rightarrow> [] | Some j \<Rightarrow> py_str j)"

definition stable_query :: "patient \<Rightarrow> string" where
  "stable_query p =
     (let age = get_or_blank (get_age p);
          sex = get_or_blank (get_sex p);
          duration = get_or_blank (get_duration p);
          symptoms = or_empty (get_symptoms p);
          symptoms_sorted = join '', '' (sort (map norm symptoms))
      in ''NICE NG12 suspected cancer recognition and referral.'' @ NL
         @ ''Patient: age='' @ age @ '', sex='' @ sex @ '', duration='' @ duration @ NL
         @ ''Symptoms: '' @ symptoms_sorted @ NL
         @ ''Question: Based on NG12, what is the recommended next action and urgency category?'')"

definition strong_phrase :: "string \<Rightarrow> bool" where
  "strong_phrase text =
     (py_in ''suspected cancer pathway'' text \<or> py_in ''urgent investigation'' text
      \<or> py_in ''urgent referral'' text)"

definition ct_phrase :: "string \<Rightarrow> bool" where
  "ct_phrase text = (py_in ''ct scan'' text \<or> py_in ''direct access ct'' text)"

definition score_keywords :: "string list" where
  "score_keywords = [''weight loss'', ''change in bowel habit'', ''bowel habit'', ''abdominal pain'',
                     ''upper abdominal pain'', ''ct scan'']"

definition score_citation :: "citation \<Rightarrow> patient \<Rightarrow> int" where
  "score_citation c p =
     (let text = norm (excerpt c);
          symptoms = map norm (or_empty (get_symptoms p));
          has_weight_loss = list_ex (py_in ''weight loss'') symptoms;
          has_bowel_change = list_ex (\<lambda>s. py_in ''change in bowel'' s \<or> py_in ''bowel habit'' s) symptoms;
          has_abdominal_pain = (list_ex (py_in ''abdominal pain'') symptoms
                                \<or> list_ex (py_in ''upper abdominal pain'') symptoms);
          score0 = 0;
          score1 = (if strong_phrase text then score0 + 60 else score0);
          score2 = (if has_weight_loss \<and> has_bowel_change
                    then (let s = (if strong_phrase text then score1 + 80 else score1)
                          in if ct_phrase text then s - 20 else s)
                    else score1);
          score3 = (if has_weight_loss \<and> has_abdominal_pain \<and> ct_phrase text then score2 + 15 else score2);
          score4 = fold (\<lambda>kw s. if py_in kw text then s + 3 else s) score_keywords score3
      in score4 + min (int (length text) div 200) 5)"

text \<open>
  \<open>sorted(xs, key=k, reverse=True)\<close>: Python's sort is stable, also with \<open>reverse=True\<close>
  (elements with equal keys keep their order), so it is the stable sort by the negated key.
\<close>

definition sorted_reverse :: "('a \<Rightarrow> int) \<Rightarrow> 'a list \<Rightarrow> 'a list" where
  "sorted_reverse k xs = sort_key (\<lambda>x. - k x) xs"

definition rank_citations :: "citation list \<Rightarrow> patient \<Rightarrow> citation list" where
  "rank_citations cs p = sorted_reverse (\<lambda>c. score_citation c p) cs"

text \<open>
  The collaborators of a request: the retriever (\<open>NG12Retriever().retrieve(query, top_k)\<close>),
  the configuration read from the environment, \<open>vertexai.init\<close>, the generation call
  (\<open>GenerativeModel(...).generate_content(prompt, ...)\<close> followed by
  \<open>getattr(resp, "text", "") or ""\<close>) and the standard library's \<open>json.loads\<close> and
  \<open>json.dumps(patient, indent=2)\<close>. A call that raises yields the exception.
\<close>

record env =
  retrieve :: "string \<Rightarrow> int \<Rightarrow> error + citation list"
  google_cloud_project :: "string option"
  vertexai_init :: "error option"
  generate_content :: "string \<Rightarrow> error + string"
  json_loads :: "string \<Rightarrow> json option"
  json_dumps :: "patient \<Rightarrow> string"
  top_k :: int
  top_citations :: int

definition init_vertex :: "env \<Rightarrow> error option" where
  \<open>init_vertex e =
     (if or_empty (google_cloud_project e) = []
      then Some (Error ''RuntimeError''
                  (''GOOGLE_CLOUD_PROJECT is not set. Example:'' @ NL
                   @ ''  $env:GOOGLE_CLOUD_PROJECT="your-project-id"'' @ NL
                   @ ''  $env:GOOGLE_CLOUD_LOCATION="us-central1"''))
      else vertexai_init e)\<close>

definition assess_prompt :: "env \<Rightarrow> patient \<Rightarrow> citation \<Rightarrow> string" where
  \<open>assess_prompt e p best =
     strip (NL
       @ ''You are a clinical decision support assistant.'' @ NL
       @ ''You MUST ground your answer only in the NG12 excerpt below.'' @ NL
       @ NL
       @ ''Patient JSON:'' @ NL
       @ json_dumps e p @ NL
       @ NL
       @ ''NG12 excerpt (primary evidence):'' @ NL
       @ ''Source: '' @ source best @ NL
       @ ''Page: '' @ str_int (page best) @ NL
       @ ''Chunk: '' @ chunk_id best @ NL
       @ ''Text:'' @ NL
       @ excerpt best @ NL
       @ NL
       @ ''Return ONLY a JSON object with these keys:'' @ NL
       @ ''- category: one of ["urgent_referral","urgent_investigation","no_urgent_action","insufficient_evidence"]'' @ NL
       @ ''- rationale: short, quote/point to the excerpt wording'' @ NL
       @ ''- recommended_action: short, actionable, aligned with the excerpt'' @ NL)\<close>

definition referral_phrase :: "string \<Rightarrow> bool" where
  "referral_phrase excerpt_norm =
     (py_in ''suspected cancer pathway'' excerpt_norm \<or> py_in ''urgent referral'' excerpt_norm)"

definition investigation_phrase :: "string \<Rightarrow> bool" where
  "investigation_phrase excerpt_norm = py_in ''urgent investigation'' excerpt_norm"

text \<open>The \<open>try\<close> block of \<open>assess_patient\<close>: the extracted object, or the exception raised.\<close>

definition assess_generate :: "env \<Rightarrow> string \<Rightarrow> error + json" where
  "assess_generate e prompt =
     (case init_vertex e of
        Some err \<Rightarrow> Inl err
      | None \<Rightarrow>
          (case generate_content e prompt of
             Inl err \<Rightarrow> Inl err
           | Inr text \<Rightarrow> Inr (extract_json (json_loads e) text)))"

text \<open>The \<open>except Exception as e\<close> handler of the generation call.\<close>

definition generation_fallback :: "string \<Rightarrow> citation \<Rightarrow> error \<Rightarrow> assess_response" where
  "generation_fallback pid best err =
     (let excerpt_norm = norm (excerpt best) in
      if referral_phrase excerpt_norm then
        \<lparr>patient_id = pid, category = ''urgent_referral'',
         rationale = ''NG12 excerpt indicates a suspected cancer pathway referral.'',
         recommended_action = ''Refer using a suspected cancer pathway referral.'',
         citations = [best]\<rparr>
      else if investigation_phrase excerpt_norm then
        \<lparr>patient_id = pid, category = ''urgent_investigation'',
         rationale = ''NG12 excerpt indicates urgent investigation.'',
         recommended_action = ''Offer urgent investigation.'',
         citations = [best]\<rparr>
      else
        \<lparr>patient_id = pid, category = ''insufficient_evidence'',
         rationale = ''Model failed: '' @ err_type err @ '': '' @ err_msg err
                     @ ''. Returning best available citation.'',
         recommended_action = ''Follow NG12 guidance as per the cited excerpt.'',
         citations = [best]\<rparr>)"

text \<open>The code after the \<open>try\<close> block, for an extracted dict \<open>obj\<close>.\<close>

definition assemble :: "string \<Rightarrow> citation \<Rightarrow> (string \<times> json) list \<Rightarrow> assess_response" where
  "assemble pid best obj =
     (let category0 = map_category (py_str (dict_get_or obj ''category'' (JStr [])));
          rationale0 = strip (py_str (dict_get_or_empty obj ''rationale''));
          action0 = strip (py_str (dict_get_or_empty obj ''recommended_action''));
          rationale1 = (if rationale0 = []
                        then ''Recommendation is grounded in the retrieved NG12 excerpt.''
                        else rationale0);
          excerpt_norm = norm (excerpt best);
          (action1, category1) =
             (if action0 = [] then
                (if referral_phrase excerpt_norm
                   then (''Refer using a suspected cancer pathway referral.'', ''urgent_referral'')
                 else if investigation_phrase excerpt_norm
                   then (''Offer urgent investigation.'', ''urgent_investigation'')
                 else (''Follow NG12 guidance as per the cited excerpt.'', category0))
              else (action0, category0))
      in \<lparr>patient_id = pid, category = category1, rationale = rationale1,
          recommended_action = action1, citations = [best]\<rparr>)"

text \<open>
  \<open>assess_patient\<close>: \<open>Inr\<close> the response it returns, \<open>Inl\<close> an exception it lets through.
\<close>

definition assess_patient :: "env \<Rightarrow> patient \<Rightarrow> error + assess_response" where
  "assess_patient e p =
     (let query = stable_query p;
          pid = get_or_blank (get_patient_id p)
      in case retrieve e query (top_k e) of
           Inl err \<Rightarrow>
             Inr \<lparr>patient_id = pid, category = ''insufficient_evidence'',
                  rationale = ''Retrieval failed: '' @ err_type err @ '': '' @ err_msg err,
                  recommended_action = ''Retry retrieval or review NG12 guidance manually.'',
                  citations = []\<rparr>
         | Inr cits \<Rightarrow>
             if cits = [] then
               Inr \<lparr>patient_id = pid, category = ''insufficient_evidence'',
                    rationale = ''No relevant NG12 guidance could be retrieved for the given symptoms.'',
                    recommended_action = ''Review NG12 guidance manually and consider clinical review.'',
                    citations = []\<rparr>
             else
               (case rank_citations cits p of
                  [] \<Rightarrow> Inl (Error ''IndexError'' ''list index out of range'')
                | best # _ \<Rightarrow>
                    (case assess_generate e (assess_prompt e p best) of
                       Inl err \<Rightarrow> Inr (generation_fallback pid best err)
                     | Inr (JObj obj) \<Rightarrow> Inr (assemble pid best obj)
                     | Inr v \<Rightarrow> Inl (no_get_attribute v))))"

section \<open>Chat flow (\<open>chat_agent.py\<close>)\<close>

definition chat_init_vertex :: "env \<Rightarrow> error option" where
  \<open>chat_init_vertex e =
     (if or_empty (google_cloud_project e) = []
      then Some (Error ''RuntimeError''
                  (''GOOGLE_CLOUD_PROJECT is not set.'' @ NL
                   @ ''Example:'' @ NL
                   @ ''  $env:GOOGLE_CLOUD_PROJECT="your-project-id"'' @ NL
                   @ ''  $env:GOOGLE_CLOUD_LOCATION="us-central1"''))
      else vertexai_init e)\<close>

definition chat_keywords :: "string list" where
  "chat_keywords = [''weight loss'', ''change in bowel'', ''bowel habit'', ''abdominal pain'',
                    ''upper abdominal pain'']"

definition chat_score_citation :: "citation \<Rightarrow> patient \<Rightarrow> string \<Rightarrow> int" where
  "chat_score_citation c p message =
     (let text = norm (excerpt c);
          msg = norm message;
          symptoms = map norm (or_empty (get_symptoms p));
          findings = map norm (or_empty (get_findings p));
          patient_text = join '' '' (symptoms @ findings);
          score0 = 0;
          score1 = (if py_in ''refer using a suspected cancer pathway referral'' text
                    then score0 + 120 else score0);
          score2 = (if py_in ''suspected cancer pathway referral'' text then score1 + 90 else score1);
          score3 = (if py_in ''offer urgent investigation'' text then score2 + 80 else score2);
          score4 = (if py_in ''urgent referral'' text then score3 + 60 else score3);
          score5 = fold (\<lambda>kw s. if py_in kw text \<and> (py_in kw patient_text \<or> py_in kw msg)
                                 then s + 10 else s) chat_keywords score4;
          score6 = (if py_in ''recommendations organised by symptom'' text then score5 - 40 else score5)
      in score6 + min (int (length text) div 250) 6)"

definition chat_rank_citations :: "citation list \<Rightarrow> patient \<Rightarrow> string \<Rightarrow> citation list" where
  "chat_rank_citations cs p message = sorted_reverse (\<lambda>c. chat_score_citation c p message) cs"

definition py_format :: "json option \<Rightarrow> string" where
  \<comment> \<open>\<open>patient.get(key)\<close> inside an f-string: a missing key prints as \<open>None\<close>\<close>
  "py_format v = (case v of None \<Rightarrow> ''None'' | Some j \<Rightarrow> py_str j)"

definition chat_query :: "patient \<Rightarrow> string \<Rightarrow> string" where
  "chat_query p message =
     (let age = get_age p;
          sex = (case get_sex p of
                   None \<Rightarrow> get_gender p
                 | Some v \<Rightarrow> if py_truthy v then Some v else get_gender p);
          symptoms = or_empty (get_symptoms p);
          findings = or_empty (get_findings p);
          symptom_text = join ''; '' (filter (\<lambda>s. s \<noteq> []) symptoms);
          finding_text = join ''; '' (filter (\<lambda>f. f \<noteq> []) findings)
      in strip (''NG12 suspected cancer pathway referral urgent investigation. ''
                @ ''Patient age '' @ py_format age @ '', sex '' @ py_format sex @ ''. ''
                @ ''Symptoms: '' @ symptom_text @ ''. Findings: '' @ finding_text @ ''. ''
                @ ''Question: '' @ message))"

fun evidence_entries :: "nat \<Rightarrow> citation list \<Rightarrow> string list" where
  "evidence_entries i [] = []"
| "evidence_entries i (c # cs) =
     (''Evidence '' @ str_nat (i + 1) @ '':'' @ NL
      @ ''Source: '' @ source c @ NL
      @ ''Page: '' @ str_int (page c) @ NL
      @ ''Chunk: '' @ chunk_id c @ NL
      @ ''Text:'' @ NL @ excerpt c) # evidence_entries (Suc i) cs"

definition no_excerpt_answer :: string where
  "no_excerpt_answer = ''I couldn'' @ RSQUO @ ''t retrieve a relevant NG12 excerpt for that question.''"

definition cannot_find_answer :: string where
  "cannot_find_answer = ''I can'' @ RSQUO @ ''t find that in the provided NG12 excerpts.''"

definition chat_prompt :: "env \<Rightarrow> patient \<Rightarrow> string \<Rightarrow> citation list \<Rightarrow> string" where
  \<open>chat_prompt e p message cits =
     (let evidence_block = join (NL @ NL) (evidence_entries 0 cits)
      in strip (NL
        @ ''You are a clinical decision support assistant.'' @ NL
        @ NL
        @ ''RULES:'' @ NL
        @ ''- Use ONLY the provided Evidence.'' @ NL
        @ ''- If not supported by Evidence, say exactly:'' @ NL
        @ ''  "'' @ cannot_find_answer @ ''"'' @ NL
        @ ''- Do NOT invent findings.'' @ NL
        @ ''- Keep the answer concise and specific to the patient.'' @ NL
        @ NL
        @ ''Patient:'' @ NL
        @ json_dumps e p @ NL
        @ NL
        @ ''User question:'' @ NL
        @ message @ NL
        @ NL
        @ ''Evidence:'' @ NL
        @ evidence_block @ NL
        @ NL
        @ ''Return ONLY JSON:'' @ NL
        @ ''{'' @ NL
        @ ''  "answer": "string"'' @ NL
        @ ''}'' @ NL))\<close>

text \<open>
  \<open>answer_question\<close>: \<open>Inr\<close> the pair \<open>(answer, citations)\<close> it returns, \<open>Inl\<close> an exception
  it lets through (it catches none).
\<close>

definition answer_question :: "env \<Rightarrow> patient \<Rightarrow> string \<Rightarrow> error + (string \<times> citation list)" where
  "answer_question e p message =
     (let query = chat_query p message
      in case retrieve e query (top_k e) of
           Inl err \<Rightarrow> Inl err
         | Inr raw \<Rightarrow>
             (let ranked = chat_rank_citations raw p message;
                  filtered = filter (\<lambda>c. citation_supported_by_patient c p) ranked;
                  cits = take (nat (max 1 (top_citations e))) filtered
              in if cits = [] then Inr (no_excerpt_answer, [])
                 else
                   (case chat_init_vertex e of
                      Some err \<Rightarrow> Inl err
                    | None \<Rightarrow>
                        (case generate_content e (chat_prompt e p message cits) of
                           Inl err \<Rightarrow> Inl err
                         | Inr text \<Rightarrow>
                             (case extract_json (json_loads e) text of
                                JObj obj \<Rightarrow>
                                  (let answer = strip (py_str (dict_get_or_empty obj ''answer''))
                                   in Inr (if answer = [] then cannot_find_answer else answer, cits))
                              | v \<Rightarrow> Inl (no_get_attribute v))))))"


section \<open>Notions of the specification\<close>

text \<open>The four canonical urgency categories: the \<open>Literal\<close> of \<open>AssessResponse.category\<close>.\<close>

definition canonical_categories :: "string list" where
  "canonical_categories =
     [''urgent_referral'', ''urgent_investigation'', ''no_urgent_action'', ''insufficient_evidence'']"

text \<open>
  Following the specification's words, not the code: \<open>s\<close> is an arbitrary-case,
  space/underscore-insensitive spelling of the category \<open>c\<close> when lower-casing \<open>s\<close> and
  writing an underscore for every space gives \<open>c\<close>.
\<close>

definition spelling_of :: "string \<Rightarrow> string \<Rightarrow> bool" where
  "spelling_of s c = (map (\<lambda>x. if x = CHR '' '' then CHR ''_'' else lower_char x) s = c)"



section \<open>Properties of the text helpers\<close>

lemma starts_with_iff: "starts_with a s \<longleftrightarrow> (\<exists>post. s = a @ post)"
  by (induction a s rule: starts_with.induct) auto

lemma py_in_iff: "py_in sub s \<longleftrightarrow> (\<exists>pre post. s = pre @ sub @ post)"
proof (induction s)
  case Nil
  then show ?case by auto
next
  case (Cons c cs)
  show ?case
  proof
    assume "py_in sub (c # cs)"
    then consider "starts_with sub (c # cs)" | "py_in sub cs" by auto
    then show "\<exists>pre post. c # cs = pre @ sub @ post"
    proof cases
      case 1
      then obtain post where "c # cs = sub @ post" by (auto simp: starts_with_iff)
      then have "c # cs = [] @ sub @ post" by simp
      then show ?thesis by blast
    next
      case 2
      then obtain pre post where "cs = pre @ sub @ post" using Cons.IH by blast
      then have "c # cs = (c # pre) @ sub @ post" by simp
      then show ?thesis by blast
    qed
  next
    assume "\<exists>pre post. c # cs = pre @ sub @ post"
    then obtain pre post where eq: "c # cs = pre @ sub @ post" by blast
    show "py_in sub (c # cs)"
    proof (cases pre)
      case Nil
      then have "starts_with sub (c # cs)" using eq by (auto simp: starts_with_iff)
      then show ?thesis by simp
    next
      case (Cons d pre')
      then have "cs = pre' @ sub @ post" using eq by simp
      then have "py_in sub cs" using Cons.IH by blast
      then show ?thesis by simp
    qed
  qed
qed

lemma gate_loop_iff:
  "gate_loop ts text pterms \<longleftrightarrow> (\<forall>t \<in> set ts. py_in t text \<longrightarrow> py_in t pterms)"
  by (induction ts) auto

text \<open>
  Claim C1. The evidence gate returns false for a candidate exactly when some term of the
  fixed gated list (splenomegaly, lymphadenopathy, night sweats, fever, pruritus) occurs in
  the normalized excerpt but not in the patient's normalized, space-joined symptom, finding
  and investigation entries. One such term is enough, the gate takes no rank or score, and
  when no term violates the condition the gate returns true. Occurrence is containment as a
  contiguous run (\<open>py_in_iff\<close>).
\<close>

theorem evidence_gate_decides:
  "citation_supported_by_patient c p \<longleftrightarrow>
     (\<forall>t \<in> set [''splenomegaly'', ''lymphadenopathy'', ''night sweats'', ''fever'', ''pruritus''].
        py_in t (norm (excerpt c)) \<longrightarrow>
        py_in t (join '' '' (map norm (or_empty (get_symptoms p) @ or_empty (get_findings p)
                                       @ or_empty (get_investigations p)))))"
  unfolding citation_supported_by_patient_def gate_loop_iff gated_terms_def patient_terms_def ..

theorem evidence_gate_decides_witness:
  "\<not> citation_supported_by_patient
       \<lparr>source = ''NG12 PDF'', page = 12, chunk_id = ''c7'',
        excerpt = ''Unexplained weight loss with Night  Sweats: refer using a suspected cancer pathway referral''\<rparr>
       \<lparr>get_patient_id = Some (JStr ''PT-101''), get_age = Some (JInt 61), get_sex = Some (JStr ''F''),
        get_gender = None, get_duration = None, get_symptoms = Some [''Weight loss'', ''Fever''],
        get_findings = None, get_investigations = Some [''FBC normal'']\<rparr>
   \<and> citation_supported_by_patient
       \<lparr>source = ''NG12 PDF'', page = 12, chunk_id = ''c8'',
        excerpt = ''Persistent FEVER: offer urgent investigation''\<rparr>
       \<lparr>get_patient_id = Some (JStr ''PT-101''), get_age = Some (JInt 61), get_sex = Some (JStr ''F''),
        get_gender = None, get_duration = None, get_symptoms = Some [''Weight loss'', ''Fever''],
        get_findings = None, get_investigations = Some [''FBC normal'']\<rparr>"
proof (rule conjI)
  let ?p = "\<lparr>get_patient_id = Some (JStr ''PT-101''), get_age = Some (JInt 61), get_sex = Some (JStr ''F''),
        get_gender = None, get_duration = None, get_symptoms = Some [''Weight loss'', ''Fever''],
        get_findings = None, get_investigations = Some [''FBC normal'']\<rparr>"
  let ?a = "\<lparr>source = ''NG12 PDF'', page = 12, chunk_id = ''c7'',
        excerpt = ''Unexplained weight loss with Night  Sweats: refer using a suspected cancer pathway referral''\<rparr>"
  let ?b = "\<lparr>source = ''NG12 PDF'', page = 12, chunk_id = ''c8'',
        excerpt = ''Persistent FEVER: offer urgent investigation''\<rparr>"
  have "\<not> (\<forall>t \<in> set [''splenomegaly'', ''lymphadenopathy'', ''night sweats'', ''fever'', ''pruritus''].
        py_in t (norm (excerpt ?a)) \<longrightarrow>
        py_in t (join '' '' (map norm (or_empty (get_symptoms ?p) @ or_empty (get_findings ?p)
                                       @ or_empty (get_investigations ?p)))))"
    by code_simp
  then show "\<not> citation_supported_by_patient ?a ?p"
    using evidence_gate_decides [of ?a ?p] by blast
  have "\<forall>t \<in> set [''splenomegaly'', ''lymphadenopathy'', ''night sweats'', ''fever'', ''pruritus''].
        py_in t (norm (excerpt ?b)) \<longrightarrow>
        py_in t (join '' '' (map norm (or_empty (get_symptoms ?p) @ or_empty (get_findings ?p)
                                       @ or_empty (get_investigations ?p))))"
    by code_simp
  then show "citation_supported_by_patient ?b ?p"
    using evidence_gate_decides [of ?b ?p] by blast
qed

section \<open>Ranking and the assess flow\<close>

lemma sorted_reverse_sorted: "sorted_wrt (\<lambda>a b. k b \<le> k a) (sorted_reverse k xs)"
proof -
  have "sorted (map (\<lambda>x. - k x) (sort_key (\<lambda>x. - k x) xs))" by (rule sorted_sort_key)
  then show ?thesis by (simp add: sorted_reverse_def sorted_map)
qed

lemma sorted_reverse_mset: "mset (sorted_reverse k xs) = mset xs"
  by (simp add: sorted_reverse_def)

lemma sorted_reverse_stable:
  "filter (\<lambda>x. k x = v) (sorted_reverse k xs) = filter (\<lambda>x. k x = v) xs"
proof -
  have "filter (\<lambda>x. - k x = - v) (sort_key (\<lambda>x. - k x) xs) = filter (\<lambda>x. - k x = - v) xs"
    by (rule sort_key_stable)
  then show ?thesis by (simp add: sorted_reverse_def)
qed

lemma sorted_reverse_Nil_iff: "sorted_reverse k xs = [] \<longleftrightarrow> xs = []"
proof -
  have "length (sorted_reverse k xs) = length xs" by (simp add: sorted_reverse_def)
  then show ?thesis by (metis length_0_conv)
qed

lemma assess_patient_no_candidates:
  "retrieve e (stable_query p) (top_k e) = Inr [] \<Longrightarrow>
   assess_patient e p =
     Inr \<lparr>patient_id = get_or_blank (get_patient_id p), category = ''insufficient_evidence'',
          rationale = ''No relevant NG12 guidance could be retrieved for the given symptoms.'',
          recommended_action = ''Review NG12 guidance manually and consider clinical review.'',
          citations = []\<rparr>"
  by (simp add: assess_patient_def)

lemma assess_patient_generation_raises:
  assumes "retrieve e (stable_query p) (top_k e) = Inr cits"
    and "rank_citations cits p = best # rest"
    and "assess_generate e (assess_prompt e p best) = Inl err"
  shows "assess_patient e p = Inr (generation_fallback (get_or_blank (get_patient_id p)) best err)"
proof -
  have "cits \<noteq> []" using assms(2) by (auto simp: rank_citations_def sorted_reverse_def)
  then show ?thesis using assms by (simp add: assess_patient_def)
qed

lemma assess_patient_generation_dict:
  assumes "retrieve e (stable_query p) (top_k e) = Inr cits"
    and "rank_citations cits p = best # rest"
    and "assess_generate e (assess_prompt e p best) = Inr (JObj obj)"
  shows "assess_patient e p = Inr (assemble (get_or_blank (get_patient_id p)) best obj)"
proof -
  have "cits \<noteq> []" using assms(2) by (auto simp: rank_citations_def sorted_reverse_def)
  then show ?thesis using assms by (simp add: assess_patient_def)
qed

lemma assess_generate_Inl_iff:
  "assess_generate e prompt = Inl err \<longleftrightarrow>
     init_vertex e = Some err \<or> (init_vertex e = None \<and> generate_content e prompt = Inl err)"
  by (auto simp: assess_generate_def split: option.splits sum.splits)

lemma citations_generation_fallback: "citations (generation_fallback pid best err) = [best]"
  by (simp add: generation_fallback_def Let_def)

lemma citations_assemble: "citations (assemble pid best obj) = [best]"
  by (simp add: assemble_def Let_def split: prod.splits)

text \<open>
  Claim C7. Both rankers sort by score, highest first, and the sort is stable: the ranked
  list is a rearrangement of the candidates in which, for every score value, the candidates
  with that score appear in the relative order they had in the Evidence Store's list.
\<close>

theorem rank_citations_stable:
  "sorted_wrt (\<lambda>a b. score_citation b p \<le> score_citation a p) (rank_citations cs p)
   \<and> mset (rank_citations cs p) = mset cs
   \<and> filter (\<lambda>c. score_citation c p = k) (rank_citations cs p) = filter (\<lambda>c. score_citation c p = k) cs
   \<and> sorted_wrt (\<lambda>a b. chat_score_citation b p m \<le> chat_score_citation a p m) (chat_rank_citations cs p m)
   \<and> mset (chat_rank_citations cs p m) = mset cs
   \<and> filter (\<lambda>c. chat_score_citation c p m = k) (chat_rank_citations cs p m)
       = filter (\<lambda>c. chat_score_citation c p m = k) cs"
  unfolding rank_citations_def chat_rank_citations_def
  by (intro conjI sorted_reverse_sorted sorted_reverse_mset sorted_reverse_stable)

theorem rank_citations_stable_witness:
  "filter (\<lambda>c. score_citation c \<lparr>get_patient_id = None, get_age = None, get_sex = None, get_gender = None,
             get_duration = None, get_symptoms = Some [''Cough''], get_findings = None,
             get_investigations = None\<rparr> = 3)
     (rank_citations
        [\<lparr>source = ''NG12 PDF'', page = 1, chunk_id = ''a'', excerpt = ''Consider a CT scan''\<rparr>,
         \<lparr>source = ''NG12 PDF'', page = 2, chunk_id = ''b'', excerpt = ''Abdominal pain in adults''\<rparr>,
         \<lparr>source = ''NG12 PDF'', page = 3, chunk_id = ''c'', excerpt = ''Make an urgent referral''\<rparr>]
        \<lparr>get_patient_id = None, get_age = None, get_sex = None, get_gender = None,
         get_duration = None, get_symptoms = Some [''Cough''], get_findings = None,
         get_investigations = None\<rparr>)
   = [\<lparr>source = ''NG12 PDF'', page = 1, chunk_id = ''a'', excerpt = ''Consider a CT scan''\<rparr>,
      \<lparr>source = ''NG12 PDF'', page = 2, chunk_id = ''b'', excerpt = ''Abdominal pain in adults''\<rparr>]"
proof -
  let ?p = "\<lparr>get_patient_id = None, get_age = None, get_sex = None, get_gender = None,
             get_duration = None, get_symptoms = Some [''Cough''], get_findings = None,
             get_investigations = None\<rparr>"
  let ?cs = "[\<lparr>source = ''NG12 PDF'', page = 1, chunk_id = ''a'', excerpt = ''Consider a CT scan''\<rparr>,
         \<lparr>source = ''NG12 PDF'', page = 2, chunk_id = ''b'', excerpt = ''Abdominal pain in adults''\<rparr>,
         \<lparr>source = ''NG12 PDF'', page = 3, chunk_id = ''c'', excerpt = ''Make an urgent referral''\<rparr>]"
  have "filter (\<lambda>c. score_citation c ?p = 3) (rank_citations ?cs ?p)
        = filter (\<lambda>c. score_citation c ?p = 3) ?cs"
    using rank_citations_stable [where p = ?p and cs = ?cs and k = 3] by blast
  also have "\<dots> = [\<lparr>source = ''NG12 PDF'', page = 1, chunk_id = ''a'', excerpt = ''Consider a CT scan''\<rparr>,
      \<lparr>source = ''NG12 PDF'', page = 2, chunk_id = ''b'', excerpt = ''Abdominal pain in adults''\<rparr>]"
  proof -
    have "score_citation \<lparr>source = ''NG12 PDF'', page = 1, chunk_id = ''a'', excerpt = ''Consider a CT scan''\<rparr> ?p = 3"
      by code_simp
    moreover have "score_citation \<lparr>source = ''NG12 PDF'', page = 2, chunk_id = ''b'', excerpt = ''Abdominal pain in adults''\<rparr> ?p = 3"
      by code_simp
    moreover have "score_citation \<lparr>source = ''NG12 PDF'', page = 3, chunk_id = ''c'', excerpt = ''Make an urgent referral''\<rparr> ?p = 60"
      by code_simp
    ultimately show ?thesis by simp
  qed
  finally show ?thesis .
qed

text \<open>
  Claim C3. When candidates were retrieved and the generation call raises (the client
  initialisation or the call itself), the assess flow returns normally: category
  urgent_referral when the best excerpt's normalized text contains "suspected cancer pathway"
  or "urgent referral", else urgent_investigation when it contains "urgent investigation",
  else insufficient_evidence with a rationale that records the failure; in each case the
  best excerpt is the one citation.
\<close>

theorem generation_failure_fallback:
  assumes "retrieve e (stable_query p) (top_k e) = Inr cits"
    and "rank_citations cits p = best # rest"
    and "init_vertex e = Some err
         \<or> (init_vertex e = None \<and> generate_content e (assess_prompt e p best) = Inl err)"
  shows
    "(py_in ''suspected cancer pathway'' (norm (excerpt best)) \<or> py_in ''urgent referral'' (norm (excerpt best))
       \<longrightarrow> assess_patient e p =
             Inr \<lparr>patient_id = get_or_blank (get_patient_id p), category = ''urgent_referral'',
                  rationale = ''NG12 excerpt indicates a suspected cancer pathway referral.'',
                  recommended_action = ''Refer using a suspected cancer pathway referral.'',
                  citations = [best]\<rparr>)
     \<and> (\<not> (py_in ''suspected cancer pathway'' (norm (excerpt best))
             \<or> py_in ''urgent referral'' (norm (excerpt best)))
          \<and> py_in ''urgent investigation'' (norm (excerpt best))
       \<longrightarrow> assess_patient e p =
             Inr \<lparr>patient_id = get_or_blank (get_patient_id p), category = ''urgent_investigation'',
                  rationale = ''NG12 excerpt indicates urgent investigation.'',
                  recommended_action = ''Offer urgent investigation.'',
                  citations = [best]\<rparr>)
     \<and> (\<not> (py_in ''suspected cancer pathway'' (norm (excerpt best))
             \<or> py_in ''urgent referral'' (norm (excerpt best)))
          \<and> \<not> py_in ''urgent investigation'' (norm (excerpt best))
       \<longrightarrow> assess_patient e p =
             Inr \<lparr>patient_id = get_or_blank (get_patient_id p), category = ''insufficient_evidence'',
                  rationale = ''Model failed: '' @ err_type err @ '': '' @ err_msg err
                              @ ''. Returning best available citation.'',
                  recommended_action = ''Follow NG12 guidance as per the cited excerpt.'',
                  citations = [best]\<rparr>)"
proof -
  have "assess_generate e (assess_prompt e p best) = Inl err"
    using assms(3) by (simp add: assess_generate_Inl_iff)
  then have "assess_patient e p = Inr (generation_fallback (get_or_blank (get_patient_id p)) best err)"
    using assms(1,2) by (rule assess_patient_generation_raises [rotated 2])
  then show ?thesis
    by (simp add: generation_fallback_def referral_phrase_def investigation_phrase_def Let_def)
qed

theorem generation_failure_fallback_witness:
  "assess_patient
     \<lparr>retrieve = (\<lambda>q k. Inr [\<lparr>source = ''NG12 PDF'', page = 40, chunk_id = ''p40-c2'',
                                excerpt = ''Offer urgent investigation for adults with weight loss''\<rparr>]),
      google_cloud_project = Some ''demo-project'', vertexai_init = None,
      generate_content = (\<lambda>prompt. Inl (Error ''ServiceUnavailable'' ''503 backend unavailable'')),
      json_loads = (\<lambda>s. None), json_dumps = (\<lambda>p. ''{}''), top_k = 10, top_citations = 3\<rparr>
     \<lparr>get_patient_id = Some (JStr ''PT-102''), get_age = Some (JInt 58), get_sex = Some (JStr ''M''),
      get_gender = None, get_duration = None, get_symptoms = Some [''Weight loss''],
      get_findings = None, get_investigations = None\<rparr>
   = Inr \<lparr>patient_id = ''PT-102'', category = ''urgent_investigation'',
          rationale = ''NG12 excerpt indicates urgent investigation.'',
          recommended_action = ''Offer urgent investigation.'',
          citations = [\<lparr>source = ''NG12 PDF'', page = 40, chunk_id = ''p40-c2'',
                        excerpt = ''Offer urgent investigation for adults with weight loss''\<rparr>]\<rparr>"
proof -
  let ?c = "\<lparr>source = ''NG12 PDF'', page = 40, chunk_id = ''p40-c2'',
             excerpt = ''Offer urgent investigation for adults with weight loss''\<rparr>"
  let ?err = "Error ''ServiceUnavailable'' ''503 backend unavailable''"
  let ?e = "\<lparr>retrieve = (\<lambda>q k. Inr [?c]),
      google_cloud_project = Some ''demo-project'', vertexai_init = None,
      generate_content = (\<lambda>prompt. Inl ?err),
      json_loads = (\<lambda>s. None), json_dumps = (\<lambda>p. ''{}''), top_k = 10, top_citations = 3\<rparr>"
  let ?p = "\<lparr>get_patient_id = Some (JStr ''PT-102''), get_age = Some (JInt 58), get_sex = Some (JStr ''M''),
      get_gender = None, get_duration = None, get_symptoms = Some [''Weight loss''],
      get_findings = None, get_investigations = None\<rparr>"
  have h1: "retrieve ?e (stable_query ?p) (top_k ?e) = Inr [?c]" by simp
  have h2: "rank_citations [?c] ?p = ?c # []"
    by (simp add: rank_citations_def sorted_reverse_def)
  have h3: "init_vertex ?e = Some ?err
         \<or> (init_vertex ?e = None \<and> generate_content ?e (assess_prompt ?e ?p ?c) = Inl ?err)"
    by (simp add: init_vertex_def or_empty_def)
  have n1: "\<not> (py_in ''suspected cancer pathway'' (norm (excerpt ?c))
             \<or> py_in ''urgent referral'' (norm (excerpt ?c)))
          \<and> py_in ''urgent investigation'' (norm (excerpt ?c))"
    by code_simp
  have n2: "get_or_blank (get_patient_id ?p) = ''PT-102''"
    by (simp add: get_or_blank_def py_str_def)
  show ?thesis
    using generation_failure_fallback [OF h1 h2 h3] n1 unfolding n2 by blast
qed

section \<open>The assess and chat flows end to end\<close>

lemma assess_generate_Inr_iff:
  "assess_generate e prompt = Inr v \<longleftrightarrow>
     init_vertex e = None
     \<and> (\<exists>text. generate_content e prompt = Inr text \<and> extract_json (json_loads e) text = v)"
  by (auto simp: assess_generate_def split: option.splits sum.splits)

lemma rank_citations_Nil_iff: "rank_citations cits p = [] \<longleftrightarrow> cits = []"
  by (simp add: rank_citations_def sorted_reverse_Nil_iff)

lemma assess_patient_citations:
  assumes "assess_patient e p = Inr r"
  shows "citations r = []
         \<or> (\<exists>cits rest best. retrieve e (stable_query p) (top_k e) = Inr cits
              \<and> rank_citations cits p = best # rest \<and> citations r = [best])"
proof (cases "retrieve e (stable_query p) (top_k e)")
  case (Inl err)
  then show ?thesis using assms by (auto simp: assess_patient_def)
next
  case (Inr cits)
  show ?thesis
  proof (cases "cits = []")
    case True
    then show ?thesis using assms Inr by (auto simp: assess_patient_def)
  next
    case False
    then obtain best rest where rk: "rank_citations cits p = best # rest"
      by (cases "rank_citations cits p") (auto simp: rank_citations_Nil_iff)
    show ?thesis
    proof (cases "assess_generate e (assess_prompt e p best)")
      case (Inl err)
      then have "assess_patient e p = Inr (generation_fallback (get_or_blank (get_patient_id p)) best err)"
        using Inr rk by (intro assess_patient_generation_raises)
      then have "citations r = [best]" using assms by (auto simp: citations_generation_fallback)
      then show ?thesis using Inr rk by blast
    next
      case gen: (Inr v)
      show ?thesis
      proof (cases v)
        case (JObj obj)
        then have "assess_patient e p = Inr (assemble (get_or_blank (get_patient_id p)) best obj)"
          using Inr rk gen by (intro assess_patient_generation_dict) auto
        then have "citations r = [best]" using assms by (auto simp: citations_assemble)
        then show ?thesis using Inr rk by blast
      qed (use assms Inr False rk gen in \<open>auto simp: assess_patient_def\<close>)
    qed
  qed
qed

lemma take_Nil_iff: "take (nat (max 1 (n::int))) xs = [] \<longleftrightarrow> xs = []"
  by (cases xs) (auto simp: take_Cons split: nat.splits)

lemma answer_question_no_evidence:
  assumes "retrieve e (chat_query p m) (top_k e) = Inr raw"
    and "filter (\<lambda>c. citation_supported_by_patient c p) (chat_rank_citations raw p m) = []"
  shows "answer_question e p m = Inr (no_excerpt_answer, [])"
  using assms by (simp add: answer_question_def Let_def)

lemma strip_Nil: "strip [] = []"
  by (simp add: strip_def lstrip_def rstrip_def)

lemma assess_patient_run:
  assumes "retrieve e (stable_query p) (top_k e) = Inr cits"
    and "rank_citations cits p = best # rest"
    and "init_vertex e = None"
    and "generate_content e (assess_prompt e p best) = Inr text"
    and "extract_json (json_loads e) text = JObj obj"
    and "assemble (get_or_blank (get_patient_id p)) best obj = r"
  shows "assess_patient e p = Inr r"
proof -
  have "assess_generate e (assess_prompt e p best) = Inr (JObj obj)"
    using assms(3,4,5) by (simp add: assess_generate_Inr_iff)
  then show ?thesis
    using assess_patient_generation_dict [OF assms(1,2)] assms(6) by simp
qed

text \<open>
  Claim C2, as amended. Every response the assess flow returns carries at most one citation,
  and a citation that is present is the first element of the score-ranked list of the
  retrieved candidates. The assess flow applies no evidence gate: the candidate it cites may
  assert gated terms that the patient's record lacks.
\<close>

theorem assess_cites_top_ranked:
  assumes "assess_patient e p = Inr r"
  shows "length (citations r) \<le> 1
         \<and> (\<forall>c. citations r = [c] \<longrightarrow>
               (\<exists>cits rest. retrieve e (stable_query p) (top_k e) = Inr cits
                  \<and> rank_citations cits p = c # rest))"
  using assess_patient_citations [OF assms] by auto

theorem assess_cites_top_ranked_witness:
  \<open>assess_patient
     \<lparr>retrieve = (\<lambda>q k. Inr [\<lparr>source = ''NG12 PDF'', page = 21, chunk_id = ''p21-c1'',
                                excerpt = ''Refer using a suspected cancer pathway referral for unexplained weight loss''\<rparr>]),
      google_cloud_project = Some ''demo-project'', vertexai_init = None,
      generate_content = (\<lambda>prompt. Inr ''{"category": "urgent_referral", "rationale": "The excerpt advises referral", "recommended_action": "Refer on a suspected cancer pathway"}''),
      json_loads = (\<lambda>s. if s = ''{"category": "urgent_referral", "rationale": "The excerpt advises referral", "recommended_action": "Refer on a suspected cancer pathway"}''
                        then Some (JObj [(''category'', JStr ''urgent_referral''),
                                         (''rationale'', JStr ''The excerpt advises referral''),
                                         (''recommended_action'', JStr ''Refer on a suspected cancer pathway'')])
                        else None),
      json_dumps = (\<lambda>p. ''{}''), top_k = 10, top_citations = 3\<rparr>
     \<lparr>get_patient_id = Some (JStr ''PT-103''), get_age = Some (JInt 64), get_sex = Some (JStr ''F''),
      get_gender = None, get_duration = None, get_symptoms = Some [''Weight loss''],
      get_findings = None, get_investigations = None\<rparr>
   = Inr \<lparr>patient_id = ''PT-103'', category = ''urgent_referral'',
          rationale = ''The excerpt advises referral'',
          recommended_action = ''Refer on a suspected cancer pathway'',
          citations = [\<lparr>source = ''NG12 PDF'', page = 21, chunk_id = ''p21-c1'',
                        excerpt = ''Refer using a suspected cancer pathway referral for unexplained weight loss''\<rparr>]\<rparr>
   \<and> length (citations
        \<lparr>patient_id = ''PT-103'', category = ''urgent_referral'',
          rationale = ''The excerpt advises referral'',
          recommended_action = ''Refer on a suspected cancer pathway'',
          citations = [\<lparr>source = ''NG12 PDF'', page = 21, chunk_id = ''p21-c1'',
                        excerpt = ''Refer using a suspected cancer pathway referral for unexplained weight loss''\<rparr>]\<rparr>) \<le> 1\<close>
proof -
  let ?c = "\<lparr>source = ''NG12 PDF'', page = 21, chunk_id = ''p21-c1'',
             excerpt = ''Refer using a suspected cancer pathway referral for unexplained weight loss''\<rparr>"
  let ?text = \<open>''{"category": "urgent_referral", "rationale": "The excerpt advises referral", "recommended_action": "Refer on a suspected cancer pathway"}''\<close>
  let ?obj = "[(''category'', JStr ''urgent_referral''),
               (''rationale'', JStr ''The excerpt advises referral''),
               (''recommended_action'', JStr ''Refer on a suspected cancer pathway'')]"
  let ?loads = "\<lambda>s. if s = ?text then Some (JObj ?obj) else None"
  let ?e = "\<lparr>retrieve = (\<lambda>q k. Inr [?c]),
      google_cloud_project = Some ''demo-project'', vertexai_init = None,
      generate_content = (\<lambda>prompt. Inr ?text),
      json_loads = ?loads, json_dumps = (\<lambda>p. ''{}''), top_k = 10, top_citations = 3\<rparr>"
  let ?p = "\<lparr>get_patient_id = Some (JStr ''PT-103''), get_age = Some (JInt 64), get_sex = Some (JStr ''F''),
      get_gender = None, get_duration = None, get_symptoms = Some [''Weight loss''],
      get_findings = None, get_investigations = None\<rparr>"
  let ?r = "\<lparr>patient_id = ''PT-103'', category = ''urgent_referral'',
          rationale = ''The excerpt advises referral'',
          recommended_action = ''Refer on a suspected cancer pathway'',
          citations = [?c]\<rparr>"
  have h1: "retrieve ?e (stable_query ?p) (top_k ?e) = Inr [?c]" by simp
  have h2: "rank_citations [?c] ?p = ?c # []"
    by (simp add: rank_citations_def sorted_reverse_def)
  have ex: "extract_json ?loads ?text = JObj ?obj" by code_simp
  have h3: "assess_generate ?e (assess_prompt ?e ?p ?c) = Inr (JObj ?obj)"
    by (simp add: assess_generate_def init_vertex_def or_empty_def ex del: json.inject)
  have as: "assemble ''PT-103'' ?c ?obj = ?r" by code_simp
  have pid: "get_or_blank (get_patient_id ?p) = ''PT-103''"
    by (simp add: get_or_blank_def py_str_def)
  have run: "assess_patient ?e ?p = Inr ?r"
    using assess_patient_generation_dict [OF h1 h2 h3] unfolding pid as .
  from assess_cites_top_ranked [OF run] have "length (citations ?r) \<le> 1" by (rule conjunct1)
  with run show ?thesis by (rule conjI)
qed

text \<open>
  The claim as stated fails: with a supported candidate ranked below one that mentions fever
  and lymphadenopathy, which the patient does not have, the gated ranked list starts with
  the supported candidate, and the assess flow cites the other one.
\<close>

theorem assess_cites_ungated_counterexample:
  \<open>assess_patient
     \<lparr>retrieve = (\<lambda>q k. Inr [\<lparr>source = ''NG12 PDF'', page = 33, chunk_id =
     ''p33-c4'', excerpt =
     ''Consider an urgent direct access CT scan for people with weight loss and abdominal pain''\<rparr>,
     \<lparr>source = ''NG12 PDF'', page = 52, chunk_id = ''p52-c1'', excerpt =
     ''Refer using a suspected cancer pathway referral for people with unexplained fever and lymphadenopathy''\<rparr>]),
     google_cloud_project = Some ''demo-project'', vertexai_init = None, generate_content =
     (\<lambda>prompt. Inr
     ''{"category": "urgent_referral", "rationale": "Excerpt names the pathway", "recommended_action": "Refer using a suspected cancer pathway referral"}''),
     json_loads = (\<lambda>s. if s =
     ''{"category": "urgent_referral", "rationale": "Excerpt names the pathway", "recommended_action": "Refer using a suspected cancer pathway referral"}''
     then Some (JObj [(''category'', JStr ''urgent_referral''), (''rationale'', JStr
     ''Excerpt names the pathway''), (''recommended_action'', JStr
     ''Refer using a suspected cancer pathway referral'')]) else None), json_dumps = (\<lambda>p.
     ''{}''), top_k = 10, top_citations = 3\<rparr>
     \<lparr>get_patient_id = Some (JStr ''PT-104''), get_age = Some (JInt 57), get_sex = Some
     (JStr ''M''), get_gender = None, get_duration = None, get_symptoms = Some [''Weight loss'',
     ''Abdominal pain''], get_findings = None, get_investigations = None\<rparr>
   = Inr
     \<lparr>patient_id = ''PT-104'', category = ''urgent_referral'', rationale =
     ''Excerpt names the pathway'', recommended_action =
     ''Refer using a suspected cancer pathway referral'', citations = [\<lparr>source =
     ''NG12 PDF'', page = 52, chunk_id = ''p52-c1'', excerpt =
     ''Refer using a suspected cancer pathway referral for people with unexplained fever and lymphadenopathy''\<rparr>]\<rparr>
   \<and> filter (\<lambda>c. citation_supported_by_patient c
         \<lparr>get_patient_id = Some (JStr ''PT-104''), get_age = Some (JInt 57), get_sex = Some
         (JStr ''M''), get_gender = None, get_duration = None, get_symptoms = Some
         [''Weight loss'', ''Abdominal pain''], get_findings = None, get_investigations =
         None\<rparr>)
       (rank_citations
          [\<lparr>source = ''NG12 PDF'', page = 33, chunk_id = ''p33-c4'', excerpt =
          ''Consider an urgent direct access CT scan for people with weight loss and abdominal pain''\<rparr>,
          \<lparr>source = ''NG12 PDF'', page = 52, chunk_id = ''p52-c1'', excerpt =
          ''Refer using a suspected cancer pathway referral for people with unexplained fever and lymphadenopathy''\<rparr>]
          \<lparr>get_patient_id = Some (JStr ''PT-104''), get_age = Some (JInt 57), get_sex = Some
          (JStr ''M''), get_gender = None, get_duration = None, get_symptoms = Some
          [''Weight loss'', ''Abdominal pain''], get_findings = None, get_investigations =
          None\<rparr>)
     = [\<lparr>source = ''NG12 PDF'', page = 33, chunk_id = ''p33-c4'', excerpt = ''Consider an urgent direct access CT scan for people with weight loss and abdominal pain''\<rparr>]\<close>
proof (rule conjI)
  let ?cS = "\<lparr>source = ''NG12 PDF'', page = 33, chunk_id = ''p33-c4'', excerpt = ''Consider an urgent direct access CT scan for people with weight loss and abdominal pain''\<rparr>"
  let ?cF = "\<lparr>source = ''NG12 PDF'', page = 52, chunk_id = ''p52-c1'', excerpt = ''Refer using a suspected cancer pathway referral for people with unexplained fever and lymphadenopathy''\<rparr>"
  let ?text = \<open>''{"category": "urgent_referral", "rationale": "Excerpt names the pathway", "recommended_action": "Refer using a suspected cancer pathway referral"}''\<close>
  let ?obj = "[(''category'', JStr ''urgent_referral''), (''rationale'', JStr ''Excerpt names the pathway''), (''recommended_action'', JStr ''Refer using a suspected cancer pathway referral'')]"
  let ?loads = \<open>(\<lambda>s. if s = ''{"category": "urgent_referral", "rationale": "Excerpt names the pathway", "recommended_action": "Refer using a suspected cancer pathway referral"}'' then Some (JObj [(''category'', JStr ''urgent_referral''), (''rationale'', JStr ''Excerpt names the pathway''), (''recommended_action'', JStr ''Refer using a suspected cancer pathway referral'')]) else None)\<close>
  let ?e = \<open>\<lparr>retrieve = (\<lambda>q k. Inr [\<lparr>source = ''NG12 PDF'', page = 33, chunk_id = ''p33-c4'', excerpt = ''Consider an urgent direct access CT scan for people with weight loss and abdominal pain''\<rparr>, \<lparr>source = ''NG12 PDF'', page = 52, chunk_id = ''p52-c1'', excerpt = ''Refer using a suspected cancer pathway referral for people with unexplained fever and lymphadenopathy''\<rparr>]), google_cloud_project = Some ''demo-project'', vertexai_init = None, generate_content = (\<lambda>prompt. Inr ''{"category": "urgent_referral", "rationale": "Excerpt names the pathway", "recommended_action": "Refer using a suspected cancer pathway referral"}''), json_loads = (\<lambda>s. if s = ''{"category": "urgent_referral", "rationale": "Excerpt names the pathway", "recommended_action": "Refer using a suspected cancer pathway referral"}'' then Some (JObj [(''category'', JStr ''urgent_referral''), (''rationale'', JStr ''Excerpt names the pathway''), (''recommended_action'', JStr ''Refer using a suspected cancer pathway referral'')]) else None), json_dumps = (\<lambda>p. ''{}''), top_k = 10, top_citations = 3\<rparr>\<close>
  let ?p = "\<lparr>get_patient_id = Some (JStr ''PT-104''), get_age = Some (JInt 57), get_sex = Some (JStr ''M''), get_gender = None, get_duration = None, get_symptoms = Some [''Weight loss'', ''Abdominal pain''], get_findings = None, get_investigations = None\<rparr>"
  let ?r = "\<lparr>patient_id = ''PT-104'', category = ''urgent_referral'', rationale = ''Excerpt names the pathway'', recommended_action = ''Refer using a suspected cancer pathway referral'', citations = [\<lparr>source = ''NG12 PDF'', page = 52, chunk_id = ''p52-c1'', excerpt = ''Refer using a suspected cancer pathway referral for people with unexplained fever and lymphadenopathy''\<rparr>]\<rparr>"
  let ?rest = "[?cS]"
  have h1: "retrieve ?e (stable_query ?p) (top_k ?e) = Inr [?cS, ?cF]" by simp
  have sc1: "score_citation ?cS ?p = 24" by code_simp
  have sc2: "score_citation ?cF ?p = 60" by code_simp
  have h2: "rank_citations [?cS, ?cF] ?p = ?cF # ?rest"
    by (simp add: rank_citations_def sorted_reverse_def sc1 sc2)
  have g1: "\<not> citation_supported_by_patient ?cF ?p" by code_simp
  have g2: "citation_supported_by_patient ?cS ?p" by code_simp
  have h3: "init_vertex ?e = None" by (simp add: init_vertex_def or_empty_def)
  have h4: "generate_content ?e (assess_prompt ?e ?p ?cF) = Inr ?text" by simp
  have ex: "extract_json ?loads ?text = JObj ?obj" by code_simp
  have h5: "extract_json (json_loads ?e) ?text = JObj ?obj" using ex by simp
  have h6: "assemble (get_or_blank (get_patient_id ?p)) ?cF ?obj = ?r" by code_simp
  have run: "assess_patient ?e ?p = Inr ?r"
    by (rule assess_patient_run [OF h1 h2 h3 h4 h5 h6])
  show "assess_patient ?e ?p = Inr ?r" by (rule run)
  show "filter (\<lambda>c. citation_supported_by_patient c ?p) (rank_citations [?cS, ?cF] ?p) = [?cS]"
    unfolding h2 using g1 g2 by simp
qed

text \<open>
  Claim C4, as amended. When retrieval returns no candidate, the assess flow returns the
  fixed insufficient_evidence response with no citation. When no retrieved candidate
  survives the gate, the chat flow returns the fixed refusal sentence with no citation,
  whatever the generation service, the client initialisation and the project setting are:
  it does not reach them.
\<close>

theorem empty_evidence_terminal:
  "(retrieve e (stable_query p) (top_k e) = Inr [] \<longrightarrow>
      assess_patient e p =
        Inr \<lparr>patient_id = get_or_blank (get_patient_id p), category = ''insufficient_evidence'',
             rationale = ''No relevant NG12 guidance could be retrieved for the given symptoms.'',
             recommended_action = ''Review NG12 guidance manually and consider clinical review.'',
             citations = []\<rparr>)
   \<and> (retrieve e (chat_query p m) (top_k e) = Inr raw
        \<and> filter (\<lambda>c. citation_supported_by_patient c p) (chat_rank_citations raw p m) = [] \<longrightarrow>
      (\<forall>g v pr.
         answer_question (e\<lparr>generate_content := g, vertexai_init := v, google_cloud_project := pr\<rparr>) p m
           = Inr (''I couldn'' @ [CHR 0xE2, CHR 0x80, CHR 0x99]
                  @ ''t retrieve a relevant NG12 excerpt for that question.'', [])))"
proof (intro conjI impI allI)
  assume "retrieve e (stable_query p) (top_k e) = Inr []"
  then show "assess_patient e p =
        Inr \<lparr>patient_id = get_or_blank (get_patient_id p), category = ''insufficient_evidence'',
             rationale = ''No relevant NG12 guidance could be retrieved for the given symptoms.'',
             recommended_action = ''Review NG12 guidance manually and consider clinical review.'',
             citations = []\<rparr>"
    by (rule assess_patient_no_candidates)
next
  fix g v pr
  let ?e = "e\<lparr>generate_content := g, vertexai_init := v, google_cloud_project := pr\<rparr>"
  assume h: "retrieve e (chat_query p m) (top_k e) = Inr raw
        \<and> filter (\<lambda>c. citation_supported_by_patient c p) (chat_rank_citations raw p m) = []"
  then have "retrieve ?e (chat_query p m) (top_k ?e) = Inr raw" by simp
  then have "answer_question ?e p m = Inr (no_excerpt_answer, [])"
    using h by (intro answer_question_no_evidence) auto
  then show "answer_question ?e p m
           = Inr (''I couldn'' @ [CHR 0xE2, CHR 0x80, CHR 0x99]
                  @ ''t retrieve a relevant NG12 excerpt for that question.'', [])"
    by (simp add: no_excerpt_answer_def RSQUO_def)
qed

theorem empty_evidence_terminal_witness:
  \<open>assess_patient
     \<lparr>retrieve = (\<lambda>q k. Inr []), google_cloud_project = Some ''demo-project'',
     vertexai_init = None, generate_content = (\<lambda>prompt. Inr ''{}''), json_loads =
     (\<lambda>s. Some (JObj [])), json_dumps = (\<lambda>p. ''{}''), top_k = 10, top_citations =
     3\<rparr>
     \<lparr>get_patient_id = Some (JStr ''PT-107''), get_age = Some (JInt 38), get_sex = Some
     (JStr ''F''), get_gender = None, get_duration = None, get_symptoms = Some [''Fatigue''],
     get_findings = Some [''Pallor''], get_investigations = None\<rparr>
   = Inr
     \<lparr>patient_id = ''PT-107'', category = ''insufficient_evidence'', rationale =
     ''No relevant NG12 guidance could be retrieved for the given symptoms.'', recommended_action =
     ''Review NG12 guidance manually and consider clinical review.'', citations = []\<rparr>
   \<and> answer_question
     \<lparr>retrieve = (\<lambda>q k. Inr [\<lparr>source = ''NG12 PDF'', page = 44, chunk_id =
     ''p44-c5'', excerpt =
     ''Consider lymphoma in adults with unexplained lymphadenopathy or splenomegaly''\<rparr>]),
     google_cloud_project = None, vertexai_init = Some (Error ''RuntimeError''
     ''vertexai.init was called''), generate_content = (\<lambda>prompt. Inl (Error
     ''RuntimeError'' ''the generation service was called'')), json_loads = (\<lambda>s. None),
     json_dumps = (\<lambda>p. ''{}''), top_k = 10, top_citations = 3\<rparr>
     \<lparr>get_patient_id = Some (JStr ''PT-107''), get_age = Some (JInt 38), get_sex = Some
     (JStr ''F''), get_gender = None, get_duration = None, get_symptoms = Some [''Fatigue''],
     get_findings = Some [''Pallor''], get_investigations = None\<rparr>
     ''Does this patient need a referral?''
   = Inr (''I couldn'' @ [CHR 0xE2, CHR 0x80, CHR 0x99] @ ''t retrieve a relevant NG12 excerpt for that question.'', [])\<close>
proof (rule conjI)
  let ?cN = "\<lparr>source = ''NG12 PDF'', page = 44, chunk_id = ''p44-c5'', excerpt = ''Consider lymphoma in adults with unexplained lymphadenopathy or splenomegaly''\<rparr>"
  let ?p = "\<lparr>get_patient_id = Some (JStr ''PT-107''), get_age = Some (JInt 38), get_sex = Some (JStr ''F''), get_gender = None, get_duration = None, get_symptoms = Some [''Fatigue''], get_findings = Some [''Pallor''], get_investigations = None\<rparr>"
  let ?m = "''Does this patient need a referral?''"
  let ?e1 = \<open>\<lparr>retrieve = (\<lambda>q k. Inr []), google_cloud_project = Some ''demo-project'', vertexai_init = None, generate_content = (\<lambda>prompt. Inr ''{}''), json_loads = (\<lambda>s. Some (JObj [])), json_dumps = (\<lambda>p. ''{}''), top_k = 10, top_citations = 3\<rparr>\<close>
  let ?e2 = \<open>\<lparr>retrieve = (\<lambda>q k. Inr [\<lparr>source = ''NG12 PDF'', page = 44, chunk_id = ''p44-c5'', excerpt = ''Consider lymphoma in adults with unexplained lymphadenopathy or splenomegaly''\<rparr>]), google_cloud_project = None, vertexai_init = Some (Error ''RuntimeError'' ''vertexai.init was called''), generate_content = (\<lambda>prompt. Inl (Error ''RuntimeError'' ''the generation service was called'')), json_loads = (\<lambda>s. None), json_dumps = (\<lambda>p. ''{}''), top_k = 10, top_citations = 3\<rparr>\<close>
  let ?g = "\<lambda>prompt :: string. Inl (Error ''RuntimeError'' ''the generation service was called'') :: error + string"
  let ?v = "Some (Error ''RuntimeError'' ''vertexai.init was called'')"
  have pid: "get_or_blank (get_patient_id ?p) = ''PT-107''"
    by (simp add: get_or_blank_def py_str_def)
  have a: "retrieve ?e1 (stable_query ?p) (top_k ?e1) = Inr []" by simp
  from empty_evidence_terminal [where e = ?e1 and p = ?p]
  have "retrieve ?e1 (stable_query ?p) (top_k ?e1) = Inr [] \<longrightarrow>
        assess_patient ?e1 ?p =
          Inr \<lparr>patient_id = get_or_blank (get_patient_id ?p), category = ''insufficient_evidence'',
               rationale = ''No relevant NG12 guidance could be retrieved for the given symptoms.'',
               recommended_action = ''Review NG12 guidance manually and consider clinical review.'',
               citations = []\<rparr>"
    by (rule conjunct1)
  then show "assess_patient ?e1 ?p = Inr \<lparr>patient_id = ''PT-107'', category = ''insufficient_evidence'', rationale = ''No relevant NG12 guidance could be retrieved for the given symptoms.'', recommended_action = ''Review NG12 guidance manually and consider clinical review.'', citations = []\<rparr>"
    using a unfolding pid by (rule mp)
  have b: "retrieve ?e2 (chat_query ?p ?m) (top_k ?e2) = Inr [?cN]" by simp
  have g: "\<not> citation_supported_by_patient ?cN ?p" by code_simp
  have c: "filter (\<lambda>c. citation_supported_by_patient c ?p) (chat_rank_citations [?cN] ?p ?m) = []"
    using g by (simp add: chat_rank_citations_def sorted_reverse_def)
  from empty_evidence_terminal [where e = ?e2 and p = ?p and m = ?m and raw = "[?cN]"]
  have "retrieve ?e2 (chat_query ?p ?m) (top_k ?e2) = Inr [?cN]
        \<and> filter (\<lambda>c. citation_supported_by_patient c ?p) (chat_rank_citations [?cN] ?p ?m) = [] \<longrightarrow>
      (\<forall>g v pr.
         answer_question (?e2\<lparr>generate_content := g, vertexai_init := v, google_cloud_project := pr\<rparr>) ?p ?m
           = Inr (''I couldn'' @ [CHR 0xE2, CHR 0x80, CHR 0x99] @ ''t retrieve a relevant NG12 excerpt for that question.'', []))"
    by (rule conjunct2)
  with b c have "\<forall>g v pr.
         answer_question (?e2\<lparr>generate_content := g, vertexai_init := v, google_cloud_project := pr\<rparr>) ?p ?m
           = Inr (''I couldn'' @ [CHR 0xE2, CHR 0x80, CHR 0x99] @ ''t retrieve a relevant NG12 excerpt for that question.'', [])"
    by blast
  then have "answer_question (?e2\<lparr>generate_content := ?g, vertexai_init := ?v, google_cloud_project := None\<rparr>) ?p ?m
           = Inr (''I couldn'' @ [CHR 0xE2, CHR 0x80, CHR 0x99] @ ''t retrieve a relevant NG12 excerpt for that question.'', [])"
    by blast
  then show "answer_question ?e2 ?p ?m = Inr (''I couldn'' @ [CHR 0xE2, CHR 0x80, CHR 0x99] @ ''t retrieve a relevant NG12 excerpt for that question.'', [])"
    by simp
qed

text \<open>
  The claim as stated fails for the assess flow: the only retrieved candidate asserts night
  sweats and pruritus, absent from the patient's record, so the gated set is empty, and the
  assess flow still answers from that candidate and cites it.
\<close>

theorem assess_without_gated_evidence_counterexample:
  \<open>filter (\<lambda>c. citation_supported_by_patient c
         \<lparr>get_patient_id = Some (JStr ''PT-105''), get_age = Some (JInt 49), get_sex = Some
         (JStr ''F''), get_gender = None, get_duration = None, get_symptoms = Some [''Cough''],
         get_findings = None, get_investigations = None\<rparr>)
       (rank_citations
          [\<lparr>source = ''NG12 PDF'', page = 61, chunk_id = ''p61-c2'', excerpt = ''Offer urgent investigation for adults with night sweats and pruritus''\<rparr>]
          \<lparr>get_patient_id = Some (JStr ''PT-105''), get_age = Some (JInt 49), get_sex = Some
          (JStr ''F''), get_gender = None, get_duration = None, get_symptoms = Some [''Cough''],
          get_findings = None, get_investigations = None\<rparr>)
     = []
   \<and> assess_patient
     \<lparr>retrieve = (\<lambda>q k. Inr [\<lparr>source = ''NG12 PDF'', page = 61, chunk_id =
     ''p61-c2'', excerpt =
     ''Offer urgent investigation for adults with night sweats and pruritus''\<rparr>]),
     google_cloud_project = Some ''demo-project'', vertexai_init = None, generate_content =
     (\<lambda>prompt. Inr
     ''{"category": "urgent_investigation", "rationale": "Excerpt offers investigation", "recommended_action": "Offer urgent investigation"}''),
     json_loads = (\<lambda>s. if s =
     ''{"category": "urgent_investigation", "rationale": "Excerpt offers investigation", "recommended_action": "Offer urgent investigation"}''
     then Some (JObj [(''category'', JStr ''urgent_investigation''), (''rationale'', JStr
     ''Excerpt offers investigation''), (''recommended_action'', JStr
     ''Offer urgent investigation'')]) else None), json_dumps = (\<lambda>p. ''{}''), top_k = 10,
     top_citations = 3\<rparr>
     \<lparr>get_patient_id = Some (JStr ''PT-105''), get_age = Some (JInt 49), get_sex = Some
     (JStr ''F''), get_gender = None, get_duration = None, get_symptoms = Some [''Cough''],
     get_findings = None, get_investigations = None\<rparr>
   = Inr
     \<lparr>patient_id = ''PT-105'', category = ''urgent_investigation'', rationale =
     ''Excerpt offers investigation'', recommended_action = ''Offer urgent investigation'',
     citations = [\<lparr>source = ''NG12 PDF'', page = 61, chunk_id = ''p61-c2'', excerpt =
     ''Offer urgent investigation for adults with night sweats and pruritus''\<rparr>]\<rparr>\<close>
proof (rule conjI)
  let ?cN = "\<lparr>source = ''NG12 PDF'', page = 61, chunk_id = ''p61-c2'', excerpt = ''Offer urgent investigation for adults with night sweats and pruritus''\<rparr>"
  let ?text = \<open>''{"category": "urgent_investigation", "rationale": "Excerpt offers investigation", "recommended_action": "Offer urgent investigation"}''\<close>
  let ?obj = "[(''category'', JStr ''urgent_investigation''), (''rationale'', JStr ''Excerpt offers investigation''), (''recommended_action'', JStr ''Offer urgent investigation'')]"
  let ?loads = \<open>(\<lambda>s. if s = ''{"category": "urgent_investigation", "rationale": "Excerpt offers investigation", "recommended_action": "Offer urgent investigation"}'' then Some (JObj [(''category'', JStr ''urgent_investigation''), (''rationale'', JStr ''Excerpt offers investigation''), (''recommended_action'', JStr ''Offer urgent investigation'')]) else None)\<close>
  let ?e = \<open>\<lparr>retrieve = (\<lambda>q k. Inr [\<lparr>source = ''NG12 PDF'', page = 61, chunk_id = ''p61-c2'', excerpt = ''Offer urgent investigation for adults with night sweats and pruritus''\<rparr>]), google_cloud_project = Some ''demo-project'', vertexai_init = None, generate_content = (\<lambda>prompt. Inr ''{"category": "urgent_investigation", "rationale": "Excerpt offers investigation", "recommended_action": "Offer urgent investigation"}''), json_loads = (\<lambda>s. if s = ''{"category": "urgent_investigation", "rationale": "Excerpt offers investigation", "recommended_action": "Offer urgent investigation"}'' then Some (JObj [(''category'', JStr ''urgent_investigation''), (''rationale'', JStr ''Excerpt offers investigation''), (''recommended_action'', JStr ''Offer urgent investigation'')]) else None), json_dumps = (\<lambda>p. ''{}''), top_k = 10, top_citations = 3\<rparr>\<close>
  let ?p = "\<lparr>get_patient_id = Some (JStr ''PT-105''), get_age = Some (JInt 49), get_sex = Some (JStr ''F''), get_gender = None, get_duration = None, get_symptoms = Some [''Cough''], get_findings = None, get_investigations = None\<rparr>"
  let ?r = "\<lparr>patient_id = ''PT-105'', category = ''urgent_investigation'', rationale = ''Excerpt offers investigation'', recommended_action = ''Offer urgent investigation'', citations = [\<lparr>source = ''NG12 PDF'', page = 61, chunk_id = ''p61-c2'', excerpt = ''Offer urgent investigation for adults with night sweats and pruritus''\<rparr>]\<rparr>"
  let ?rest = "[] :: citation list"
  have h1: "retrieve ?e (stable_query ?p) (top_k ?e) = Inr [?cN]" by simp
  have h2: "rank_citations [?cN] ?p = ?cN # ?rest"
    by (simp add: rank_citations_def sorted_reverse_def)
  have h3: "init_vertex ?e = None" by (simp add: init_vertex_def or_empty_def)
  have h4: "generate_content ?e (assess_prompt ?e ?p ?cN) = Inr ?text" by simp
  have ex: "extract_json ?loads ?text = JObj ?obj" by code_simp
  have h5: "extract_json (json_loads ?e) ?text = JObj ?obj" using ex by simp
  have h6: "assemble (get_or_blank (get_patient_id ?p)) ?cN ?obj = ?r" by code_simp
  have run: "assess_patient ?e ?p = Inr ?r"
    by (rule assess_patient_run [OF h1 h2 h3 h4 h5 h6])
  show "assess_patient ?e ?p = Inr ?r" by (rule run)
  have g: "\<not> citation_supported_by_patient ?cN ?p" by code_simp
  show "filter (\<lambda>c. citation_supported_by_patient c ?p) (rank_citations [?cN] ?p) = []"
    unfolding h2 using g by simp
qed

text \<open>
  Claim C10, as amended. When generation succeeds and the extracted object is a mapping whose
  recommended_action is absent or empty (after \<open>str\<close> and \<open>strip\<close>), the action is filled
  from the best excerpt and the category is overwritten with it: urgent_referral when the
  excerpt contains "suspected cancer pathway" or "urgent referral", else urgent_investigation
  when it contains "urgent investigation". The normalized model category is kept when the
  action is empty and the excerpt contains none of the three phrases, and whenever the
  action is non-empty, whether or not the rationale is empty.
\<close>

theorem empty_action_overwrites_category:
  assumes "retrieve e (stable_query p) (top_k e) = Inr cits"
    and "rank_citations cits p = best # rest"
    and "init_vertex e = None"
    and "generate_content e (assess_prompt e p best) = Inr text"
    and "extract_json (json_loads e) text = JObj obj"
  shows "\<exists>r. assess_patient e p = Inr r \<and> citations r = [best]
     \<and> (map_of obj ''recommended_action'' = None \<or> map_of obj ''recommended_action'' = Some (JStr [])
          \<longrightarrow> strip (py_str (dict_get_or_empty obj ''recommended_action'')) = [])
     \<and> (strip (py_str (dict_get_or_empty obj ''recommended_action'')) = []
          \<and> (py_in ''suspected cancer pathway'' (norm (excerpt best))
               \<or> py_in ''urgent referral'' (norm (excerpt best)))
          \<longrightarrow> category r = ''urgent_referral''
               \<and> recommended_action r = ''Refer using a suspected cancer pathway referral.'')
     \<and> (strip (py_str (dict_get_or_empty obj ''recommended_action'')) = []
          \<and> \<not> (py_in ''suspected cancer pathway'' (norm (excerpt best))
                  \<or> py_in ''urgent referral'' (norm (excerpt best)))
          \<and> py_in ''urgent investigation'' (norm (excerpt best))
          \<longrightarrow> category r = ''urgent_investigation''
               \<and> recommended_action r = ''Offer urgent investigation.'')
     \<and> (strip (py_str (dict_get_or_empty obj ''recommended_action'')) = []
          \<and> \<not> (py_in ''suspected cancer pathway'' (norm (excerpt best))
                  \<or> py_in ''urgent referral'' (norm (excerpt best)))
          \<and> \<not> py_in ''urgent investigation'' (norm (excerpt best))
          \<longrightarrow> category r = map_category (py_str (dict_get_or obj ''category'' (JStr [])))
               \<and> recommended_action r = ''Follow NG12 guidance as per the cited excerpt.'')
     \<and> (strip (py_str (dict_get_or_empty obj ''recommended_action'')) \<noteq> []
          \<longrightarrow> category r = map_category (py_str (dict_get_or obj ''category'' (JStr [])))
               \<and> recommended_action r = strip (py_str (dict_get_or_empty obj ''recommended_action'')))"
proof -
  have "assess_generate e (assess_prompt e p best) = Inr (JObj obj)"
    using assms(3,4,5) by (simp add: assess_generate_Inr_iff)
  then have eq: "assess_patient e p = Inr (assemble (get_or_blank (get_patient_id p)) best obj)"
    using assms(1,2) by (intro assess_patient_generation_dict)
  have absent: "map_of obj ''recommended_action'' = None \<or> map_of obj ''recommended_action'' = Some (JStr [])
          \<longrightarrow> strip (py_str (dict_get_or_empty obj ''recommended_action'')) = []"
    by (auto simp: dict_get_or_empty_def py_str_def strip_Nil)
  show ?thesis
    unfolding eq using absent
    by (simp add: assemble_def Let_def referral_phrase_def investigation_phrase_def)
qed

theorem empty_action_overwrites_category_witness:
  \<open>map_of [(''category'', JStr ''no_urgent_action''), (''rationale'', JStr ''Symptoms are mild'')] ''recommended_action'' = None
   \<and> (\<exists>r. assess_patient
         \<lparr>retrieve = (\<lambda>q k. Inr [\<lparr>source = ''NG12 PDF'', page = 27, chunk_id
         = ''p27-c2'', excerpt =
         ''Refer people using a suspected cancer pathway referral if they have unexplained weight loss''\<rparr>]),
         google_cloud_project = Some ''demo-project'', vertexai_init = None, generate_content =
         (\<lambda>prompt. Inr
         ''{"category": "no_urgent_action", "rationale": "Symptoms are mild"}''), json_loads =
         (\<lambda>s. if s = ''{"category": "no_urgent_action", "rationale": "Symptoms are mild"}''
         then Some (JObj [(''category'', JStr ''no_urgent_action''), (''rationale'', JStr
         ''Symptoms are mild'')]) else None), json_dumps = (\<lambda>p. ''{}''), top_k = 10,
         top_citations = 3\<rparr>
         \<lparr>get_patient_id = Some (JStr ''PT-108''), get_age = Some (JInt 71), get_sex = Some
         (JStr ''F''), get_gender = None, get_duration = None, get_symptoms = Some
         [''Weight loss''], get_findings = None, get_investigations = None\<rparr>
         = Inr r
       \<and> citations r = [\<lparr>source = ''NG12 PDF'', page = 27, chunk_id = ''p27-c2'', excerpt = ''Refer people using a suspected cancer pathway referral if they have unexplained weight loss''\<rparr>]
       \<and> category r = ''urgent_referral''
       \<and> recommended_action r = ''Refer using a suspected cancer pathway referral.'')\<close>
proof (rule conjI)
  let ?cU = "\<lparr>source = ''NG12 PDF'', page = 27, chunk_id = ''p27-c2'', excerpt = ''Refer people using a suspected cancer pathway referral if they have unexplained weight loss''\<rparr>"
  let ?text = \<open>''{"category": "no_urgent_action", "rationale": "Symptoms are mild"}''\<close>
  let ?obj = "[(''category'', JStr ''no_urgent_action''), (''rationale'', JStr ''Symptoms are mild'')]"
  let ?loads = \<open>(\<lambda>s. if s = ''{"category": "no_urgent_action", "rationale": "Symptoms are mild"}'' then Some (JObj [(''category'', JStr ''no_urgent_action''), (''rationale'', JStr ''Symptoms are mild'')]) else None)\<close>
  let ?e = \<open>\<lparr>retrieve = (\<lambda>q k. Inr [\<lparr>source = ''NG12 PDF'', page = 27, chunk_id = ''p27-c2'', excerpt = ''Refer people using a suspected cancer pathway referral if they have unexplained weight loss''\<rparr>]), google_cloud_project = Some ''demo-project'', vertexai_init = None, generate_content = (\<lambda>prompt. Inr ''{"category": "no_urgent_action", "rationale": "Symptoms are mild"}''), json_loads = (\<lambda>s. if s = ''{"category": "no_urgent_action", "rationale": "Symptoms are mild"}'' then Some (JObj [(''category'', JStr ''no_urgent_action''), (''rationale'', JStr ''Symptoms are mild'')]) else None), json_dumps = (\<lambda>p. ''{}''), top_k = 10, top_citations = 3\<rparr>\<close>
  let ?p = "\<lparr>get_patient_id = Some (JStr ''PT-108''), get_age = Some (JInt 71), get_sex = Some (JStr ''F''), get_gender = None, get_duration = None, get_symptoms = Some [''Weight loss''], get_findings = None, get_investigations = None\<rparr>"
  show absent: "map_of ?obj ''recommended_action'' = None" by simp
  have h1: "retrieve ?e (stable_query ?p) (top_k ?e) = Inr [?cU]" by simp
  have h2: "rank_citations [?cU] ?p = ?cU # []"
    by (simp add: rank_citations_def sorted_reverse_def)
  have h3: "init_vertex ?e = None" by (simp add: init_vertex_def or_empty_def)
  have h4: "generate_content ?e (assess_prompt ?e ?p ?cU) = Inr ?text" by simp
  have ex: "extract_json ?loads ?text = JObj ?obj" by code_simp
  have h5: "extract_json (json_loads ?e) ?text = JObj ?obj" using ex by simp
  have ph: "py_in ''suspected cancer pathway'' (norm (excerpt ?cU))" by code_simp
  from empty_action_overwrites_category [OF h1 h2 h3 h4 h5]
  obtain r where r: "assess_patient ?e ?p = Inr r" "citations r = [?cU]"
    and r1: "map_of ?obj ''recommended_action'' = None \<or> map_of ?obj ''recommended_action'' = Some (JStr [])
          \<longrightarrow> strip (py_str (dict_get_or_empty ?obj ''recommended_action'')) = []"
    and r2: "strip (py_str (dict_get_or_empty ?obj ''recommended_action'')) = []
          \<and> (py_in ''suspected cancer pathway'' (norm (excerpt ?cU))
               \<or> py_in ''urgent referral'' (norm (excerpt ?cU)))
          \<longrightarrow> category r = ''urgent_referral''
               \<and> recommended_action r = ''Refer using a suspected cancer pathway referral.''"
    by blast
  from r1 absent have emp: "strip (py_str (dict_get_or_empty ?obj ''recommended_action'')) = []" by blast
  from r2 emp ph have "category r = ''urgent_referral''
               \<and> recommended_action r = ''Refer using a suspected cancer pathway referral.''" by blast
  with r show "\<exists>r. assess_patient ?e ?p = Inr r \<and> citations r = [?cU]
       \<and> category r = ''urgent_referral''
       \<and> recommended_action r = ''Refer using a suspected cancer pathway referral.''" by blast
qed

text \<open>
  The claim as stated fails: with an empty rationale and a non-empty action the model's
  category is kept, although the excerpt contains "urgent referral".
\<close>

theorem category_kept_with_empty_rationale_counterexample:
  \<open>strip (py_str (dict_get_or_empty [(''category'', JStr ''no_urgent_action''), (''rationale'', JStr ''''), (''recommended_action'', JStr ''Reassure and review in two weeks'')] ''rationale'')) = []
   \<and> py_in ''urgent referral'' (norm (excerpt \<lparr>source = ''NG12 PDF'', page = 18, chunk_id = ''p18-c3'', excerpt = ''Consider an urgent referral for people with persistent hoarseness''\<rparr>))
   \<and> assess_patient
     \<lparr>retrieve = (\<lambda>q k. Inr [\<lparr>source = ''NG12 PDF'', page = 18, chunk_id =
     ''p18-c3'', excerpt =
     ''Consider an urgent referral for people with persistent hoarseness''\<rparr>]),
     google_cloud_project = Some ''demo-project'', vertexai_init = None, generate_content =
     (\<lambda>prompt. Inr
     ''{"category": "no_urgent_action", "rationale": "", "recommended_action": "Reassure and review in two weeks"}''),
     json_loads = (\<lambda>s. if s =
     ''{"category": "no_urgent_action", "rationale": "", "recommended_action": "Reassure and review in two weeks"}''
     then Some (JObj [(''category'', JStr ''no_urgent_action''), (''rationale'', JStr ''''),
     (''recommended_action'', JStr ''Reassure and review in two weeks'')]) else None), json_dumps =
     (\<lambda>p. ''{}''), top_k = 10, top_citations = 3\<rparr>
     \<lparr>get_patient_id = Some (JStr ''PT-106''), get_age = Some (JInt 66), get_sex = Some
     (JStr ''M''), get_gender = None, get_duration = None, get_symptoms = Some [''Hoarseness''],
     get_findings = None, get_investigations = None\<rparr>
   = Inr
     \<lparr>patient_id = ''PT-106'', category = ''no_urgent_action'', rationale =
     ''Recommendation is grounded in the retrieved NG12 excerpt.'', recommended_action =
     ''Reassure and review in two weeks'', citations = [\<lparr>source = ''NG12 PDF'', page = 18,
     chunk_id = ''p18-c3'', excerpt =
     ''Consider an urgent referral for people with persistent hoarseness''\<rparr>]\<rparr>\<close>
proof (intro conjI)
  let ?cU = "\<lparr>source = ''NG12 PDF'', page = 18, chunk_id = ''p18-c3'', excerpt = ''Consider an urgent referral for people with persistent hoarseness''\<rparr>"
  let ?text = \<open>''{"category": "no_urgent_action", "rationale": "", "recommended_action": "Reassure and review in two weeks"}''\<close>
  let ?obj = "[(''category'', JStr ''no_urgent_action''), (''rationale'', JStr ''''), (''recommended_action'', JStr ''Reassure and review in two weeks'')]"
  let ?loads = \<open>(\<lambda>s. if s = ''{"category": "no_urgent_action", "rationale": "", "recommended_action": "Reassure and review in two weeks"}'' then Some (JObj [(''category'', JStr ''no_urgent_action''), (''rationale'', JStr ''''), (''recommended_action'', JStr ''Reassure and review in two weeks'')]) else None)\<close>
  let ?e = \<open>\<lparr>retrieve = (\<lambda>q k. Inr [\<lparr>source = ''NG12 PDF'', page = 18, chunk_id = ''p18-c3'', excerpt = ''Consider an urgent referral for people with persistent hoarseness''\<rparr>]), google_cloud_project = Some ''demo-project'', vertexai_init = None, generate_content = (\<lambda>prompt. Inr ''{"category": "no_urgent_action", "rationale": "", "recommended_action": "Reassure and review in two weeks"}''), json_loads = (\<lambda>s. if s = ''{"category": "no_urgent_action", "rationale": "", "recommended_action": "Reassure and review in two weeks"}'' then Some (JObj [(''category'', JStr ''no_urgent_action''), (''rationale'', JStr ''''), (''recommended_action'', JStr ''Reassure and review in two weeks'')]) else None), json_dumps = (\<lambda>p. ''{}''), top_k = 10, top_citations = 3\<rparr>\<close>
  let ?p = "\<lparr>get_patient_id = Some (JStr ''PT-106''), get_age = Some (JInt 66), get_sex = Some (JStr ''M''), get_gender = None, get_duration = None, get_symptoms = Some [''Hoarseness''], get_findings = None, get_investigations = None\<rparr>"
  let ?r = "\<lparr>patient_id = ''PT-106'', category = ''no_urgent_action'', rationale = ''Recommendation is grounded in the retrieved NG12 excerpt.'', recommended_action = ''Reassure and review in two weeks'', citations = [\<lparr>source = ''NG12 PDF'', page = 18, chunk_id = ''p18-c3'', excerpt = ''Consider an urgent referral for people with persistent hoarseness''\<rparr>]\<rparr>"
  let ?rest = "[] :: citation list"
  have h1: "retrieve ?e (stable_query ?p) (top_k ?e) = Inr [?cU]" by simp
  have h2: "rank_citations [?cU] ?p = ?cU # ?rest"
    by (simp add: rank_citations_def sorted_reverse_def)
  have h3: "init_vertex ?e = None" by (simp add: init_vertex_def or_empty_def)
  have h4: "generate_content ?e (assess_prompt ?e ?p ?cU) = Inr ?text" by simp
  have ex: "extract_json ?loads ?text = JObj ?obj" by code_simp
  have h5: "extract_json (json_loads ?e) ?text = JObj ?obj" using ex by simp
  have h6: "assemble (get_or_blank (get_patient_id ?p)) ?cU ?obj = ?r" by code_simp
  have run: "assess_patient ?e ?p = Inr ?r"
    by (rule assess_patient_run [OF h1 h2 h3 h4 h5 h6])
  show "assess_patient ?e ?p = Inr ?r" by (rule run)
  show "strip (py_str (dict_get_or_empty ?obj ''rationale'')) = []" by code_simp
  show "py_in ''urgent referral'' (norm (excerpt ?cU))" by code_simp
qed

section \<open>The assess-flow scorer\<close>

lemma fold_keywords_lower:
  "(s::int) \<le> fold (\<lambda>kw s. if P kw then s + 3 else s) kws s"
proof (induction kws arbitrary: s)
  case Nil
  show ?case by simp
next
  case (Cons k kws)
  have "s \<le> (if P k then s + 3 else s)" by simp
  also have "\<dots> \<le> fold (\<lambda>kw s. if P kw then s + 3 else s) kws (if P k then s + 3 else s)"
    by (rule Cons.IH)
  finally show ?case by simp
qed

lemma fold_keywords_upper:
  "fold (\<lambda>kw s. if P kw then s + 3 else s) kws (s::int) \<le> s + 3 * int (length kws)"
proof (induction kws arbitrary: s)
  case Nil
  show ?case by simp
next
  case (Cons k kws)
  have "fold (\<lambda>kw s. if P kw then s + 3 else s) kws (if P k then s + 3 else s)
        \<le> (if P k then s + 3 else s) + 3 * int (length kws)"
    by (rule Cons.IH)
  then show ?case by (simp split: if_splits)
qed

lemma list_ex_norm_iff: "list_ex P (map norm xs) \<longleftrightarrow> (\<exists>s \<in> set xs. P (norm s))"
  by (simp add: list_ex_iff)

lemma score_citation_pathway_lower:
  assumes "\<exists>s \<in> set (or_empty (get_symptoms p)). py_in ''weight loss'' (norm s)"
    and "\<exists>s \<in> set (or_empty (get_symptoms p)).
            py_in ''change in bowel'' (norm s) \<or> py_in ''bowel habit'' (norm s)"
    and "strong_phrase (norm (excerpt a))"
  shows "120 \<le> score_citation a p"
proof -
  let ?text = "norm (excerpt a)"
  let ?base = "(if ct_phrase ?text then 120 else 140) :: int"
  let ?syms = "map norm (or_empty (get_symptoms p))"
  let ?s3 = "if list_ex (py_in ''weight loss'') ?syms
                \<and> (list_ex (py_in ''abdominal pain'') ?syms
                    \<or> list_ex (py_in ''upper abdominal pain'') ?syms)
                \<and> ct_phrase ?text then ?base + 15 else ?base"
  have wl: "list_ex (py_in ''weight loss'') ?syms"
    using assms(1) by (simp add: list_ex_norm_iff)
  have bc: "list_ex (\<lambda>s. py_in ''change in bowel'' s \<or> py_in ''bowel habit'' s) ?syms"
    using assms(2) by (simp add: list_ex_norm_iff)
  have eq: "score_citation a p =
      fold (\<lambda>kw s. if py_in kw ?text then s + 3 else s) score_keywords ?s3
      + min (int (length ?text) div 200) 5"
    using wl bc assms(3) by (simp add: score_citation_def Let_def)
  have "120 \<le> ?s3" by simp
  also have "?s3 \<le> fold (\<lambda>kw s. if py_in kw ?text then s + 3 else s) score_keywords ?s3"
    by (rule fold_keywords_lower)
  finally have "120 \<le> fold (\<lambda>kw s. if py_in kw ?text then s + 3 else s) score_keywords ?s3" .
  moreover have "0 \<le> min (int (length ?text) div 200) 5" by simp
  ultimately show ?thesis unfolding eq by linarith
qed

lemma score_citation_ct_upper:
  assumes "\<exists>s \<in> set (or_empty (get_symptoms p)). py_in ''weight loss'' (norm s)"
    and "\<exists>s \<in> set (or_empty (get_symptoms p)).
            py_in ''change in bowel'' (norm s) \<or> py_in ''bowel habit'' (norm s)"
    and "ct_phrase (norm (excerpt b))"
    and "\<not> strong_phrase (norm (excerpt b))"
  shows "score_citation b p \<le> 18"
proof -
  let ?text = "norm (excerpt b)"
  let ?syms = "map norm (or_empty (get_symptoms p))"
  let ?s3 = "(if list_ex (py_in ''abdominal pain'') ?syms
                    \<or> list_ex (py_in ''upper abdominal pain'') ?syms
              then - 5 else - 20) :: int"
  have wl: "list_ex (py_in ''weight loss'') ?syms"
    using assms(1) by (simp add: list_ex_norm_iff)
  have bc: "list_ex (\<lambda>s. py_in ''change in bowel'' s \<or> py_in ''bowel habit'' s) ?syms"
    using assms(2) by (simp add: list_ex_norm_iff)
  have eq: "score_citation b p =
      fold (\<lambda>kw s. if py_in kw ?text then s + 3 else s) score_keywords ?s3
      + min (int (length ?text) div 200) 5"
    using wl bc assms(3,4) by (simp add: score_citation_def Let_def)
  have "fold (\<lambda>kw s. if py_in kw ?text then s + 3 else s) score_keywords ?s3
        \<le> ?s3 + 3 * int (length score_keywords)"
    by (rule fold_keywords_upper)
  also have "\<dots> \<le> 13" by (simp add: score_keywords_def)
  finally have "fold (\<lambda>kw s. if py_in kw ?text then s + 3 else s) score_keywords ?s3 \<le> 13" .
  moreover have "min (int (length ?text) div 200) 5 \<le> 5" by simp
  ultimately show ?thesis unfolding eq by linarith
qed

lemma rank_citations_never_inverts:
  assumes "score_citation b p < score_citation a p"
  shows "rank_citations cs p \<noteq> xs @ b # ys @ a # zs"
proof
  assume eq: "rank_citations cs p = xs @ b # ys @ a # zs"
  have "sorted_wrt (\<lambda>x y. score_citation y p \<le> score_citation x p) (rank_citations cs p)"
    unfolding rank_citations_def by (rule sorted_reverse_sorted)
  then have "score_citation a p \<le> score_citation b p"
    unfolding eq by (auto simp: sorted_wrt_append)
  with assms show False by simp
qed

text \<open>
  Claim C9, as amended. For a patient whose symptom list has an entry containing "weight
  loss" and an entry containing "change in bowel" or "bowel habit", the assess-flow scorer
  gives every excerpt containing one of the three phrases it rewards for this combination
  ("suspected cancer pathway", "urgent investigation", "urgent referral") a strictly higher
  score than every excerpt that contains "ct scan" or "direct access ct" and none of those
  three phrases, whatever keywords and length the two excerpts have; so the ranker puts the
  first excerpt first, and never puts the CT excerpt before it.
\<close>

theorem pathway_outranks_direct_access_ct:
  assumes "\<exists>s \<in> set (or_empty (get_symptoms p)). py_in ''weight loss'' (norm s)"
    and "\<exists>s \<in> set (or_empty (get_symptoms p)).
            py_in ''change in bowel'' (norm s) \<or> py_in ''bowel habit'' (norm s)"
    and "py_in ''suspected cancer pathway'' (norm (excerpt a))
         \<or> py_in ''urgent investigation'' (norm (excerpt a))
         \<or> py_in ''urgent referral'' (norm (excerpt a))"
    and "py_in ''ct scan'' (norm (excerpt b)) \<or> py_in ''direct access ct'' (norm (excerpt b))"
    and "\<not> (py_in ''suspected cancer pathway'' (norm (excerpt b))
            \<or> py_in ''urgent investigation'' (norm (excerpt b))
            \<or> py_in ''urgent referral'' (norm (excerpt b)))"
  shows "score_citation b p < score_citation a p
         \<and> rank_citations [b, a] p = [a, b]
         \<and> (\<forall>cs xs ys zs. rank_citations cs p \<noteq> xs @ b # ys @ a # zs)"
proof -
  have "120 \<le> score_citation a p"
    using assms(1,2,3) by (intro score_citation_pathway_lower) (auto simp: strong_phrase_def)
  moreover have "score_citation b p \<le> 18"
    using assms(1,2,4,5) by (intro score_citation_ct_upper) (auto simp: strong_phrase_def ct_phrase_def)
  ultimately have lt: "score_citation b p < score_citation a p" by linarith
  then have "rank_citations [b, a] p = [a, b]"
    by (simp add: rank_citations_def sorted_reverse_def)
  with lt show ?thesis using rank_citations_never_inverts [OF lt] by blast
qed

theorem pathway_outranks_direct_access_ct_witness:
  "score_citation
     \<lparr>source = ''NG12 PDF'', page = 15, chunk_id = ''p15-c1'', excerpt =
     ''Offer a direct access CT scan for weight loss with abdominal pain or a change in bowel habit''\<rparr>
     \<lparr>get_patient_id = Some (JStr ''PT-109''), get_age = Some (JInt 62), get_sex = Some
     (JStr ''M''), get_gender = None, get_duration = None, get_symptoms = Some
     [''Unexplained Weight Loss'', ''Change in bowel habit''], get_findings = None,
     get_investigations = None\<rparr>
   < score_citation
     \<lparr>source = ''NG12 PDF'', page = 14, chunk_id = ''p14-c2'', excerpt =
     ''Refer using a suspected cancer pathway referral''\<rparr>
     \<lparr>get_patient_id = Some (JStr ''PT-109''), get_age = Some (JInt 62), get_sex = Some
     (JStr ''M''), get_gender = None, get_duration = None, get_symptoms = Some
     [''Unexplained Weight Loss'', ''Change in bowel habit''], get_findings = None,
     get_investigations = None\<rparr>
   \<and> rank_citations
     [\<lparr>source = ''NG12 PDF'', page = 15, chunk_id = ''p15-c1'', excerpt =
     ''Offer a direct access CT scan for weight loss with abdominal pain or a change in bowel habit''\<rparr>,
     \<lparr>source = ''NG12 PDF'', page = 14, chunk_id = ''p14-c2'', excerpt =
     ''Refer using a suspected cancer pathway referral''\<rparr>]
     \<lparr>get_patient_id = Some (JStr ''PT-109''), get_age = Some (JInt 62), get_sex = Some
     (JStr ''M''), get_gender = None, get_duration = None, get_symptoms = Some
     [''Unexplained Weight Loss'', ''Change in bowel habit''], get_findings = None,
     get_investigations = None\<rparr>
     = [\<lparr>source = ''NG12 PDF'', page = 14, chunk_id = ''p14-c2'', excerpt = ''Refer using a suspected cancer pathway referral''\<rparr>,
        \<lparr>source = ''NG12 PDF'', page = 15, chunk_id = ''p15-c1'', excerpt = ''Offer a direct access CT scan for weight loss with abdominal pain or a change in bowel habit''\<rparr>]"
proof -
  let ?a = "\<lparr>source = ''NG12 PDF'', page = 14, chunk_id = ''p14-c2'', excerpt = ''Refer using a suspected cancer pathway referral''\<rparr>"
  let ?b = "\<lparr>source = ''NG12 PDF'', page = 15, chunk_id = ''p15-c1'', excerpt = ''Offer a direct access CT scan for weight loss with abdominal pain or a change in bowel habit''\<rparr>"
  let ?p = "\<lparr>get_patient_id = Some (JStr ''PT-109''), get_age = Some (JInt 62), get_sex = Some (JStr ''M''), get_gender = None, get_duration = None, get_symptoms = Some [''Unexplained Weight Loss'', ''Change in bowel habit''], get_findings = None, get_investigations = None\<rparr>"
  have h1: "\<exists>s \<in> set (or_empty (get_symptoms ?p)). py_in ''weight loss'' (norm s)"
    by code_simp
  have h2: "\<exists>s \<in> set (or_empty (get_symptoms ?p)).
              py_in ''change in bowel'' (norm s) \<or> py_in ''bowel habit'' (norm s)"
    by code_simp
  have na: "norm (excerpt ?a) = ''refer using a suspected cancer pathway referral''"
    by code_simp
  have nb: "norm (excerpt ?b)
      = ''offer a direct access ct scan for weight loss with abdominal pain or a change in bowel habit''"
    by code_simp
  have h3: "py_in ''suspected cancer pathway'' (norm (excerpt ?a))
         \<or> py_in ''urgent investigation'' (norm (excerpt ?a))
         \<or> py_in ''urgent referral'' (norm (excerpt ?a))"
    unfolding na by code_simp
  have h4: "py_in ''ct scan'' (norm (excerpt ?b)) \<or> py_in ''direct access ct'' (norm (excerpt ?b))"
    unfolding nb by code_simp
  have h5: "\<not> (py_in ''suspected cancer pathway'' (norm (excerpt ?b))
            \<or> py_in ''urgent investigation'' (norm (excerpt ?b))
            \<or> py_in ''urgent referral'' (norm (excerpt ?b)))"
    unfolding nb by code_simp
  from pathway_outranks_direct_access_ct [OF h1 h2 h3 h4 h5]
  show ?thesis by blast
qed

text \<open>
  The claim as stated fails: a CT excerpt with no referral-pathway phrase ("suspected cancer
  pathway", "urgent referral") may still contain "urgent investigation", which the scorer
  rewards like a pathway phrase. With abdominal pain also recorded, such an excerpt that
  matches all six keywords scores 153 against 140 for the pathway excerpt, and is ranked
  first.
\<close>

theorem ct_excerpt_with_urgent_investigation_counterexample:
  "(\<exists>s \<in> set (or_empty (get_symptoms
        \<lparr>get_patient_id = Some (JStr ''PT-111''), get_age = Some (JInt 59), get_sex = Some
        (JStr ''F''), get_gender = None, get_duration = None, get_symptoms = Some [''Weight loss'',
        ''Change in bowel habit'', ''Abdominal pain''], get_findings = None, get_investigations =
        None\<rparr>)).
      py_in ''weight loss'' (norm s))
   \<and> (\<exists>s \<in> set (or_empty (get_symptoms
        \<lparr>get_patient_id = Some (JStr ''PT-111''), get_age = Some (JInt 59), get_sex = Some
        (JStr ''F''), get_gender = None, get_duration = None, get_symptoms = Some [''Weight loss'',
        ''Change in bowel habit'', ''Abdominal pain''], get_findings = None, get_investigations =
        None\<rparr>)).
      py_in ''change in bowel'' (norm s))
   \<and> py_in ''suspected cancer pathway'' (norm (excerpt
        \<lparr>source = ''NG12 PDF'', page = 14, chunk_id = ''p14-c2'', excerpt =
        ''Refer using a suspected cancer pathway referral''\<rparr>))
   \<and> py_in ''ct scan'' (norm (excerpt
        \<lparr>source = ''NG12 PDF'', page = 16, chunk_id = ''p16-c3'', excerpt =
        ''Offer urgent investigation with a direct access CT scan for weight loss, upper abdominal pain or a change in bowel habit''\<rparr>))
   \<and> \<not> referral_phrase (norm (excerpt
        \<lparr>source = ''NG12 PDF'', page = 16, chunk_id = ''p16-c3'', excerpt =
        ''Offer urgent investigation with a direct access CT scan for weight loss, upper abdominal pain or a change in bowel habit''\<rparr>))
   \<and> score_citation
     \<lparr>source = ''NG12 PDF'', page = 14, chunk_id = ''p14-c2'', excerpt =
     ''Refer using a suspected cancer pathway referral''\<rparr>
     \<lparr>get_patient_id = Some (JStr ''PT-111''), get_age = Some (JInt 59), get_sex = Some
     (JStr ''F''), get_gender = None, get_duration = None, get_symptoms = Some [''Weight loss'',
     ''Change in bowel habit'', ''Abdominal pain''], get_findings = None, get_investigations =
     None\<rparr>
     = 140
   \<and> score_citation
     \<lparr>source = ''NG12 PDF'', page = 16, chunk_id = ''p16-c3'', excerpt =
     ''Offer urgent investigation with a direct access CT scan for weight loss, upper abdominal pain or a change in bowel habit''\<rparr>
     \<lparr>get_patient_id = Some (JStr ''PT-111''), get_age = Some (JInt 59), get_sex = Some
     (JStr ''F''), get_gender = None, get_duration = None, get_symptoms = Some [''Weight loss'',
     ''Change in bowel habit'', ''Abdominal pain''], get_findings = None, get_investigations =
     None\<rparr>
     = 153
   \<and> rank_citations
     [\<lparr>source = ''NG12 PDF'', page = 14, chunk_id = ''p14-c2'', excerpt =
     ''Refer using a suspected cancer pathway referral''\<rparr>, \<lparr>source = ''NG12 PDF'',
     page = 16, chunk_id = ''p16-c3'', excerpt =
     ''Offer urgent investigation with a direct access CT scan for weight loss, upper abdominal pain or a change in bowel habit''\<rparr>]
     \<lparr>get_patient_id = Some (JStr ''PT-111''), get_age = Some (JInt 59), get_sex = Some
     (JStr ''F''), get_gender = None, get_duration = None, get_symptoms = Some [''Weight loss'',
     ''Change in bowel habit'', ''Abdominal pain''], get_findings = None, get_investigations =
     None\<rparr>
     = [\<lparr>source = ''NG12 PDF'', page = 16, chunk_id = ''p16-c3'', excerpt = ''Offer urgent investigation with a direct access CT scan for weight loss, upper abdominal pain or a change in bowel habit''\<rparr>,
        \<lparr>source = ''NG12 PDF'', page = 14, chunk_id = ''p14-c2'', excerpt = ''Refer using a suspected cancer pathway referral''\<rparr>]"
proof (intro conjI)
  let ?a = "\<lparr>source = ''NG12 PDF'', page = 14, chunk_id = ''p14-c2'', excerpt = ''Refer using a suspected cancer pathway referral''\<rparr>"
  let ?b = "\<lparr>source = ''NG12 PDF'', page = 16, chunk_id = ''p16-c3'', excerpt = ''Offer urgent investigation with a direct access CT scan for weight loss, upper abdominal pain or a change in bowel habit''\<rparr>"
  let ?p = "\<lparr>get_patient_id = Some (JStr ''PT-111''), get_age = Some (JInt 59), get_sex = Some (JStr ''F''), get_gender = None, get_duration = None, get_symptoms = Some [''Weight loss'', ''Change in bowel habit'', ''Abdominal pain''], get_findings = None, get_investigations = None\<rparr>"
  have nb: "norm (excerpt ?b)
      = ''offer urgent investigation with a direct access ct scan for weight loss, upper abdominal pain or a change in bowel habit''"
    by code_simp
  show "\<exists>s \<in> set (or_empty (get_symptoms ?p)). py_in ''weight loss'' (norm s)" by code_simp
  show "\<exists>s \<in> set (or_empty (get_symptoms ?p)). py_in ''change in bowel'' (norm s)" by code_simp
  show "py_in ''suspected cancer pathway'' (norm (excerpt ?a))" by code_simp
  show "py_in ''ct scan'' (norm (excerpt ?b))" unfolding nb by code_simp
  show "\<not> referral_phrase (norm (excerpt ?b))" unfolding nb by code_simp
  show sa: "score_citation ?a ?p = 140" by code_simp
  show sb: "score_citation ?b ?p = 153" by code_simp
  show "rank_citations [?a, ?b] ?p = [?b, ?a]"
    by (simp add: rank_citations_def sorted_reverse_def sa sb)
qed

section \<open>The category normalizer\<close>

lemma is_space_lower_char: "is_space (lower_char c) = is_space c"
  by (auto simp: is_space_def lower_char_def Let_def)

lemma lower_strip: "lower (strip s) = strip (lower s)"
proof -
  have comp: "is_space \<circ> lower_char = is_space"
    by (rule ext) (simp add: is_space_lower_char)
  show ?thesis
    by (simp add: lower_def strip_def lstrip_def rstrip_def dropWhile_map rev_map comp)
qed

lemma norm_of_lower: "norm s = re_sub_ws (strip (lower s))"
  by (simp add: norm_def lower_strip)

lemma map_category_of_lower:
  "map_category s =
     (let c = re_sub_ws (strip (lower s)) in
      if c \<in> set [''urgent_referral'', ''urgent referral''] then ''urgent_referral''
      else if c \<in> set [''urgent_investigation'', ''urgent investigation''] then ''urgent_investigation''
      else if c \<in> set [''no_urgent_action'', ''no urgent action'', ''routine''] then ''no_urgent_action''
      else if c \<in> set [''insufficient_evidence'', ''insufficient evidence'', ''uncertain'']
        then ''insufficient_evidence''
      else ''urgent_investigation'')"
  by (simp only: map_category_def norm_of_lower)

lemma map_category_canonical: "map_category s \<in> set canonical_categories"
  by (simp add: map_category_def canonical_categories_def Let_def)

lemma lower_char_idem: "lower_char (lower_char c) = lower_char c"
  by (auto simp: lower_char_def Let_def)

lemma map_category_lower: "map_category (lower s) = map_category s"
proof -
  have "lower (lower s) = lower s" by (simp add: lower_def lower_char_idem)
  then show ?thesis by (simp only: map_category_of_lower)
qed

lemma map_category_underscores:
  assumes "c \<in> set canonical_categories" and "lower s = c"
  shows "map_category s = c"
proof -
  have "\<forall>c \<in> set canonical_categories. map_category c = c" by code_simp
  with assms(1) have "map_category c = c" by blast
  then show ?thesis using map_category_lower [of s] assms(2) by simp
qed

lemma map_category_spaces:
  assumes "c \<in> set canonical_categories"
    and "lower s = map (\<lambda>x. if x = CHR ''_'' then CHR '' '' else x) c"
  shows "map_category s = c"
proof -
  have "\<forall>c \<in> set canonical_categories.
          map_category (map (\<lambda>x. if x = CHR ''_'' then CHR '' '' else x) c) = c"
    by code_simp
  with assms(1) have "map_category (map (\<lambda>x. if x = CHR ''_'' then CHR '' '' else x) c) = c"
    by blast
  then show ?thesis using map_category_lower [of s] assms(2) by simp
qed

text \<open>
  Claim C6, as amended. The normalizer's output is always one of the four canonical
  categories. It maps to a canonical category every spelling of it, in any letter case,
  that joins the words all by underscores or all by single spaces. Every input whose
  normalized text is not one of the ten recognised strings goes to the default
  urgent_investigation.
\<close>

theorem map_category_uniform_spellings:
  "map_category s \<in> set canonical_categories
   \<and> (c \<in> set canonical_categories
        \<and> (lower s = c \<or> lower s = map (\<lambda>x. if x = CHR ''_'' then CHR '' '' else x) c)
        \<longrightarrow> map_category s = c)
   \<and> (norm s \<notin> set [''urgent_referral'', ''urgent referral'', ''urgent_investigation'',
                      ''urgent investigation'', ''no_urgent_action'', ''no urgent action'', ''routine'',
                      ''insufficient_evidence'', ''insufficient evidence'', ''uncertain'']
        \<longrightarrow> map_category s = ''urgent_investigation'')"
proof (intro conjI impI)
  show "map_category s \<in> set canonical_categories" by (rule map_category_canonical)
next
  assume "c \<in> set canonical_categories
        \<and> (lower s = c \<or> lower s = map (\<lambda>x. if x = CHR ''_'' then CHR '' '' else x) c)"
  then show "map_category s = c"
    using map_category_underscores map_category_spaces by blast
next
  assume "norm s \<notin> set [''urgent_referral'', ''urgent referral'', ''urgent_investigation'',
                      ''urgent investigation'', ''no_urgent_action'', ''no urgent action'', ''routine'',
                      ''insufficient_evidence'', ''insufficient evidence'', ''uncertain'']"
  then show "map_category s = ''urgent_investigation''"
    by (simp add: map_category_def Let_def)
qed

theorem map_category_uniform_spellings_witness:
  "map_category ''Urgent Referral'' = ''urgent_referral''
   \<and> map_category ''urgent_referral'' = ''urgent_referral''
   \<and> map_category ''banana'' = ''urgent_investigation''"
proof (intro conjI)
  have c: "''urgent_referral'' \<in> set canonical_categories" by (simp add: canonical_categories_def)
  have l1: "lower ''Urgent Referral'' = map (\<lambda>x. if x = CHR ''_'' then CHR '' '' else x) ''urgent_referral''"
    by code_simp
  have l2: "lower ''urgent_referral'' = ''urgent_referral''" by code_simp
  have l3: "norm ''banana'' \<notin> set [''urgent_referral'', ''urgent referral'', ''urgent_investigation'',
                      ''urgent investigation'', ''no_urgent_action'', ''no urgent action'', ''routine'',
                      ''insufficient_evidence'', ''insufficient evidence'', ''uncertain'']"
    by code_simp
  show "map_category ''Urgent Referral'' = ''urgent_referral''"
    using map_category_uniform_spellings [of "''Urgent Referral''" "''urgent_referral''"] c l1 by blast
  show "map_category ''urgent_referral'' = ''urgent_referral''"
    using map_category_uniform_spellings [of "''urgent_referral''" "''urgent_referral''"] c l2 by blast
  show "map_category ''banana'' = ''urgent_investigation''"
    using map_category_uniform_spellings [of "''banana''"] l3 by blast
qed

text \<open>
  The claim as stated fails: a spelling of no_urgent_action that mixes a space and an
  underscore is not recognised and goes to the default.
\<close>

theorem map_category_mixed_separators_counterexample:
  "''no_urgent_action'' \<in> set canonical_categories
   \<and> spelling_of ''No urgent_action'' ''no_urgent_action''
   \<and> map_category ''No urgent_action'' = ''urgent_investigation''
   \<and> map_category ''No urgent_action'' \<noteq> ''no_urgent_action''"
  by code_simp

section \<open>The response extractor\<close>

lemma not_space_braces: "\<not> is_space (CHR ''{'')" "\<not> is_space (CHR ''}'')"
  by code_simp+

lemma strip_braced:
  "strip (CHR ''{'' # body @ [CHR ''}'']) = CHR ''{'' # body @ [CHR ''}'']"
  by (simp add: strip_def lstrip_def rstrip_def not_space_braces)

lemma re_search_braces_span:
  assumes "CHR ''{'' \<notin> set pre" and "CHR ''}'' \<notin> set post"
  shows "re_search_braces (pre @ CHR ''{'' # mid @ CHR ''}'' # post) = Some (CHR ''{'' # mid @ [CHR ''}''])"
proof -
  let ?r = "CHR ''{'' # mid @ CHR ''}'' # post"
  have d1: "dropWhile (\<lambda>c. c \<noteq> CHR ''{'') (pre @ ?r) = ?r"
    using assms(1) by (subst dropWhile_append2) auto
  have "rev ?r = rev post @ CHR ''}'' # rev mid @ [CHR ''{'']" by simp
  then have d2: "dropWhile (\<lambda>c. c \<noteq> CHR ''}'') (rev ?r) = CHR ''}'' # rev mid @ [CHR ''{'']"
    using assms(2) by (simp only: ) (subst dropWhile_append2, auto)
  have mem: "CHR ''}'' \<in> set ?r" by simp
  show ?thesis
    unfolding re_search_braces_def Let_def d1 d2 using mem by simp
qed

lemma re_search_braces_None_iff:
  "re_search_braces t = None \<longleftrightarrow> \<not> (\<exists>pre mid post. t = pre @ CHR ''{'' # mid @ CHR ''}'' # post)"
proof -
  let ?P = "\<lambda>c. c \<noteq> CHR ''{''"
  let ?r = "dropWhile ?P t"
  have none: "re_search_braces t = None \<longleftrightarrow> CHR ''}'' \<notin> set ?r"
    by (simp add: re_search_braces_def Let_def)
  have "CHR ''}'' \<in> set ?r \<longleftrightarrow> (\<exists>pre mid post. t = pre @ CHR ''{'' # mid @ CHR ''}'' # post)"
  proof
    assume mem: "CHR ''}'' \<in> set ?r"
    have ne: "?r \<noteq> []"
    proof
      assume "?r = []"
      with mem show False by simp
    qed
    from ne have "\<not> ?P (hd ?r)" by (rule hd_dropWhile)
    then obtain r' where r: "?r = CHR ''{'' # r'" using ne by (cases ?r) auto
    with mem have "CHR ''}'' \<in> set r'" by auto
    then obtain mid post where "r' = mid @ CHR ''}'' # post" by (auto dest: split_list)
    with r have "t = takeWhile ?P t @ CHR ''{'' # mid @ CHR ''}'' # post"
      by (metis takeWhile_dropWhile_id)
    then show "\<exists>pre mid post. t = pre @ CHR ''{'' # mid @ CHR ''}'' # post" by blast
  next
    assume "\<exists>pre mid post. t = pre @ CHR ''{'' # mid @ CHR ''}'' # post"
    then obtain pre mid post where t: "t = pre @ CHR ''{'' # mid @ CHR ''}'' # post" by blast
    let ?ys = "CHR ''{'' # mid @ CHR ''}'' # post"
    show "CHR ''}'' \<in> set ?r"
    proof (cases "\<forall>x \<in> set pre. ?P x")
      case True
      then have "dropWhile ?P (pre @ ?ys) = dropWhile ?P ?ys" by (intro dropWhile_append2) auto
      then show ?thesis unfolding t by simp
    next
      case False
      then obtain x where "x \<in> set pre" "\<not> ?P x" by blast
      then have "dropWhile ?P (pre @ ?ys) = dropWhile ?P pre @ ?ys" by (rule dropWhile_append1)
      then show ?thesis unfolding t by simp
    qed
  qed
  with none show ?thesis by simp
qed

text \<open>
  Claim C5. The extractor is a total function of its input: whatever \<open>json.loads\<close> does, an
  exception included, it returns a value. It returns the parse of the stripped text when
  that succeeds; otherwise, when the text has an opening brace with a closing brace after
  it, the parse of the span from the first opening brace to the last closing brace, or the
  empty mapping when that parse fails; otherwise the empty mapping. So a serialised mapping
  (a text from brace to brace that \<open>json.loads\<close> reads back) is returned as the mapping,
  \<open>prose {"a":1} trailing\<close> gives \<open>{"a":1}\<close>, and \<open>not json\<close> gives the empty mapping.
\<close>

theorem extract_json_fallback_chain:
  \<open>(loads (strip t) = Some v \<longrightarrow> extract_json loads t = v)
   \<and> (loads (strip t) = None
        \<and> strip t = pre @ CHR ''{'' # mid @ CHR ''}'' # post
        \<and> CHR ''{'' \<notin> set pre \<and> CHR ''}'' \<notin> set post
        \<longrightarrow> extract_json loads t =
              (case loads (CHR ''{'' # mid @ [CHR ''}'']) of Some w \<Rightarrow> w | None \<Rightarrow> JObj []))
   \<and> (loads (strip t) = None
        \<and> \<not> (\<exists>pre mid post. strip t = pre @ CHR ''{'' # mid @ CHR ''}'' # post)
        \<longrightarrow> extract_json loads t = JObj [])
   \<and> (dumps (JObj kvs) = CHR ''{'' # body @ [CHR ''}''] \<and> loads (dumps (JObj kvs)) = Some (JObj kvs)
        \<longrightarrow> extract_json loads (dumps (JObj kvs)) = JObj kvs)
   \<and> (loads ''prose {"a":1} trailing'' = None \<and> loads ''{"a":1}'' = Some (JObj [(''a'', JInt 1)])
        \<longrightarrow> extract_json loads ''prose {"a":1} trailing'' = JObj [(''a'', JInt 1)])
   \<and> (loads ''not json'' = None \<longrightarrow> extract_json loads ''not json'' = JObj [])\<close>
proof (intro conjI impI)
  assume "loads (strip t) = Some v"
  then show "extract_json loads t = v" by (simp add: extract_json_def)
next
  assume h: "loads (strip t) = None
        \<and> strip t = pre @ CHR ''{'' # mid @ CHR ''}'' # post
        \<and> CHR ''{'' \<notin> set pre \<and> CHR ''}'' \<notin> set post"
  then have l: "loads (strip t) = None"
    and st: "strip t = pre @ CHR ''{'' # mid @ CHR ''}'' # post"
    and np: "CHR ''{'' \<notin> set pre" "CHR ''}'' \<notin> set post"
    by blast+
  have rs: "re_search_braces (strip t) = Some (CHR ''{'' # mid @ [CHR ''}''])"
    unfolding st using np by (rule re_search_braces_span)
  show "extract_json loads t =
              (case loads (CHR ''{'' # mid @ [CHR ''}'']) of Some w \<Rightarrow> w | None \<Rightarrow> JObj [])"
    by (simp add: extract_json_def Let_def l rs)
next
  assume h: "loads (strip t) = None
        \<and> \<not> (\<exists>pre mid post. strip t = pre @ CHR ''{'' # mid @ CHR ''}'' # post)"
  then have l: "loads (strip t) = None"
    and ne: "\<not> (\<exists>pre mid post. strip t = pre @ CHR ''{'' # mid @ CHR ''}'' # post)"
    by blast+
  have rs: "re_search_braces (strip t) = None"
    unfolding re_search_braces_None_iff by (rule ne)
  show "extract_json loads t = JObj []" by (simp add: extract_json_def Let_def l rs)
next
  assume h: "dumps (JObj kvs) = CHR ''{'' # body @ [CHR ''}''] \<and> loads (dumps (JObj kvs)) = Some (JObj kvs)"
  then have d: "dumps (JObj kvs) = CHR ''{'' # body @ [CHR ''}'']"
    and l: "loads (dumps (JObj kvs)) = Some (JObj kvs)"
    by blast+
  have st: "strip (dumps (JObj kvs)) = dumps (JObj kvs)"
    unfolding d by (rule strip_braced)
  show "extract_json loads (dumps (JObj kvs)) = JObj kvs"
    by (simp add: extract_json_def Let_def st l)
next
  assume h: \<open>loads ''prose {"a":1} trailing'' = None \<and> loads ''{"a":1}'' = Some (JObj [(''a'', JInt 1)])\<close>
  have s: \<open>strip ''prose {"a":1} trailing'' = ''prose {"a":1} trailing''\<close> by code_simp
  have r: \<open>re_search_braces ''prose {"a":1} trailing'' = Some ''{"a":1}''\<close> by code_simp
  show \<open>extract_json loads ''prose {"a":1} trailing'' = JObj [(''a'', JInt 1)]\<close>
    unfolding extract_json_def Let_def s r using h by simp
next
  assume h: "loads ''not json'' = None"
  have s: "strip ''not json'' = ''not json''" by code_simp
  have r: "re_search_braces ''not json'' = None" by code_simp
  show "extract_json loads ''not json'' = JObj []"
    unfolding extract_json_def Let_def s r using h by simp
qed

theorem extract_json_fallback_chain_witness:
  \<open>extract_json (\<lambda>s. if s = ''{"a":1}'' then Some (JObj [(''a'', JInt 1)]) else None)
      ''prose {"a":1} trailing'' = JObj [(''a'', JInt 1)]
   \<and> extract_json (\<lambda>s. if s = ''{"a":1}'' then Some (JObj [(''a'', JInt 1)]) else None)
      ''not json'' = JObj []
   \<and> extract_json (\<lambda>s. if s = ''{"a":1}'' then Some (JObj [(''a'', JInt 1)]) else None)
      ''{"a":1}'' = JObj [(''a'', JInt 1)]\<close>
proof (intro conjI)
  let ?loads = \<open>\<lambda>s. if s = ''{"a":1}'' then Some (JObj [(''a'', JInt 1)]) else None\<close>
  let ?dumps = \<open>\<lambda>v :: json. ''{"a":1}''\<close>
  note chain = extract_json_fallback_chain
    [where loads = ?loads and dumps = ?dumps and kvs = "[(''a'', JInt 1)]" and body = \<open>''"a":1''\<close>]
  have a: \<open>?loads ''prose {"a":1} trailing'' = None \<and> ?loads ''{"a":1}'' = Some (JObj [(''a'', JInt 1)])\<close>
    by simp
  from chain a show \<open>extract_json ?loads ''prose {"a":1} trailing'' = JObj [(''a'', JInt 1)]\<close>
    by blast
  have b: "?loads ''not json'' = None" by simp
  from chain b show "extract_json ?loads ''not json'' = JObj []" by blast
  have c: \<open>?dumps (JObj [(''a'', JInt 1)]) = CHR ''{'' # ''"a":1'' @ [CHR ''}'']
           \<and> ?loads (?dumps (JObj [(''a'', JInt 1)])) = Some (JObj [(''a'', JInt 1)])\<close>
    by simp
  from chain c have \<open>extract_json ?loads (?dumps (JObj [(''a'', JInt 1)])) = JObj [(''a'', JInt 1)]\<close>
    by blast
  then show \<open>extract_json ?loads ''{"a":1}'' = JObj [(''a'', JInt 1)]\<close> by simp
qed

section \<open>The assess-flow query builder\<close>



















end
